theory Spec2Isabelle
  imports Complex_Main
begin

section \<open>Python values shared by the two services\<close>

text \<open>
  A Python \<open>str\<close> is a sequence of Unicode code points, so it is modelled as a list of
  natural numbers. \<open>lit\<close> embeds an ASCII literal of the source. Timestamps and
  durations (Python floats) are modelled as reals.
\<close>

type_synonym str = "nat list"

definition lit :: "string \<Rightarrow> str" where
  "lit s = map of_char s"

text \<open>
  \<open>str.isspace\<close> per code point (the table of CPython's \<open>_PyUnicode_IsWhitespace\<close>),
  used by \<open>str.strip()\<close> and \<open>str.split()\<close> without arguments.
\<close>

definition isspace :: "nat \<Rightarrow> bool" where
  "isspace c \<longleftrightarrow>
     (9 \<le> c \<and> c \<le> 13) \<or> (28 \<le> c \<and> c \<le> 32) \<or> c = 133 \<or> c = 160 \<or> c = 5760 \<or>
     (8192 \<le> c \<and> c \<le> 8202) \<or> c = 8232 \<or> c = 8233 \<or> c = 8239 \<or> c = 8287 \<or> c = 12288"

definition strip :: "str \<Rightarrow> str" where
  "strip s = rev (dropWhile isspace (rev (dropWhile isspace s)))"

text \<open>\<open>s.split()\<close>: the maximal runs of non-whitespace code points, in order.\<close>

fun split_from :: "str \<Rightarrow> str \<Rightarrow> str list" where
  "split_from cur [] = (if cur = [] then [] else [rev cur])"
| "split_from cur (c # cs) =
     (if isspace c then (if cur = [] then split_from [] cs else rev cur # split_from [] cs)
      else split_from (c # cur) cs)"

definition py_split :: "str \<Rightarrow> str list" where
  "py_split s = split_from [] s"

definition endswith :: "str \<Rightarrow> str \<Rightarrow> bool" where
  "endswith s suffix \<longleftrightarrow>
     length suffix \<le> length s \<and> drop (length s - length suffix) s = suffix"

text \<open>\<open>os.path.join\<close> of two components (POSIX): \<open>47\<close> is the separator \<open>/\<close>.\<close>

definition path_join :: "str \<Rightarrow> str \<Rightarrow> str" where
  "path_join a b =
     (if b \<noteq> [] \<and> hd b = 47 then b
      else if a = [] \<or> last a = 47 then a @ b
      else a @ [47] @ b)"

text \<open>How an f-string renders an \<open>Optional[str]\<close>: \<open>None\<close> prints as the word None.\<close>

fun format_opt :: "str option \<Rightarrow> str" where
  "format_opt None = lit ''None''"
| "format_opt (Some s) = s"

text \<open>
  Exceptions. \<open>HTTPException\<close> is FastAPI's, with its status code and detail; the
  others are the exceptions the handlers can meet. Only subclasses of \<open>Exception\<close> are
  modelled. A call into a third-party library or the operating system that fails raises
  \<open>Exception msg\<close> or \<open>OSError path\<close>: such code never raises \<open>HTTPException\<close>.
\<close>

datatype py_exception =
    HTTPException int str
  | KeyError str
  | AttributeError
  | ValidationError
  | OSError str
  | Exception str

text \<open>The values a model's result dictionary holds: strings, numbers and \<open>None\<close>.\<close>

datatype pyval = PStr str | PNum real | PNone

definition dict_get :: "(str \<rightharpoonup> pyval) \<Rightarrow> str \<Rightarrow> pyval \<Rightarrow> pyval" where
  "dict_get d k dflt = (case d k of None \<Rightarrow> dflt | Some v \<Rightarrow> v)"

text \<open>A file system as far as the handlers see it: a path holds a file's bytes or nothing.\<close>

type_synonym filesystem = "str \<rightharpoonup> nat list"

text \<open>Both services read \<open>TORCH_DEVICE\<close> and \<open>ENABLE_GPU\<close>, and both have a global \<open>model_loading\<close>.\<close>

record torch_config =
  TORCH_DEVICE :: str
  ENABLE_GPU :: bool

record loader_flags =
  model_loading :: bool

text \<open>
  What both services ask of the Python runtime and the host: \<open>torch.cuda.is_available()\<close>,
  \<open>str(uuid.uuid4())\<close>, \<open>str.lower\<close> and \<open>str(e)\<close> of an exception.
\<close>

record host_env =
  cuda_is_available :: bool
  uuid4 :: str
  py_lower :: "str \<Rightarrow> str"
  str_of :: "py_exception \<Rightarrow> str"

section \<open>Temp-file eviction (both services)\<close>

text \<open>
  What \<open>os.listdir\<close>, \<open>os.path.isfile\<close>, \<open>os.path.getctime\<close> and \<open>os.remove\<close> see of the
  service's directory: each entry name has a kind, a creation time and whether the
  process may remove it (\<open>os.remove\<close> raises otherwise, e.g. PermissionError).
  \<open>file_path = os.path.join(DIR, filename)\<close> designates the entry \<open>filename\<close>.
\<close>

record file_stat =
  is_regular :: bool
  ctime :: real
  removable :: bool

type_synonym directory = "str \<rightharpoonup> file_stat"

definition isfile :: "directory \<Rightarrow> str \<Rightarrow> bool" where
  "isfile d f = (case d f of None \<Rightarrow> False | Some st \<Rightarrow> is_regular st)"

definition getctime :: "directory \<Rightarrow> str \<Rightarrow> py_exception + real" where
  "getctime d f = (case d f of None \<Rightarrow> Inl (OSError f) | Some st \<Rightarrow> Inr (ctime st))"

definition os_remove :: "directory \<Rightarrow> str \<Rightarrow> py_exception + directory" where
  "os_remove d f =
     (case d f of
        None \<Rightarrow> Inl (OSError f)
      | Some st \<Rightarrow> if removable st then Inr (d(f := None)) else Inl (OSError f))"

text \<open>
  The body of the \<open>try\<close> of \<open>cleanup_temp_files\<close> (stt-service, lines 130-138) and of
  \<open>cleanup_old_files\<close> (tts-service, lines 131-139); they differ in the threshold only.
  \<open>now\<close> is \<open>time.time()\<close>, read once; the list is \<open>os.listdir(DIR)\<close>. The result is the
  directory when the loop ended, and the exception that ended it, if one did.
\<close>

fun evict_loop :: "real \<Rightarrow> real \<Rightarrow> str list \<Rightarrow> directory \<Rightarrow> directory \<times> py_exception option" where
  "evict_loop threshold now [] d = (d, None)"
| "evict_loop threshold now (filename # rest) d =
     (if isfile d filename then
        (case getctime d filename of
           Inl e \<Rightarrow> (d, Some e)
         | Inr c \<Rightarrow>
             (let file_age = now - c in
              if file_age > threshold then
                (case os_remove d filename of
                   Inl e \<Rightarrow> (d, Some e)
                 | Inr d' \<Rightarrow> evict_loop threshold now rest d')
              else evict_loop threshold now rest d))
      else evict_loop threshold now rest d)"

text \<open>The \<open>except Exception\<close> of both functions logs the error and returns.\<close>

definition cleanup_temp_files :: "real \<Rightarrow> str list \<Rightarrow> directory \<Rightarrow> directory" where
  "cleanup_temp_files now listing d = fst (evict_loop 1800 now listing d)"

definition cleanup_old_files :: "real \<Rightarrow> str list \<Rightarrow> directory \<Rightarrow> directory" where
  "cleanup_old_files now listing d = fst (evict_loop 3600 now listing d)"

text \<open>A regular file whose age exceeds the threshold.\<close>

definition expired :: "real \<Rightarrow> real \<Rightarrow> directory \<Rightarrow> str \<Rightarrow> bool" where
  "expired threshold now d f =
     (case d f of None \<Rightarrow> False | Some st \<Rightarrow> is_regular st \<and> now - ctime st > threshold)"

text \<open>An entry the loop would try to remove and cannot.\<close>

definition stuck :: "real \<Rightarrow> real \<Rightarrow> directory \<Rightarrow> str \<Rightarrow> bool" where
  "stuck threshold now d f =
     (case d f of None \<Rightarrow> False
      | Some st \<Rightarrow> is_regular st \<and> now - ctime st > threshold \<and> \<not> removable st)"

section \<open>The STT service (stt-service/main.py)\<close>

subsection \<open>Configuration, globals and the outside world\<close>

text \<open>
  Lines 32-36: the configuration read from the environment, kept as parameters.
  Lines 39-41: the globals. The type \<open>'m\<close> is the opaque Whisper model.
\<close>

record stt_config = torch_config +
  TEMP_AUDIO_DIR :: str
  MAX_AUDIO_SIZE :: int
  MAX_CONCURRENT_REQUESTS :: int

record 'm stt_globals = loader_flags +
  whisper_model :: "'m option"
  current_requests :: int

text \<open>
  \<open>UploadFile\<close>: the client-reported \<open>size\<close> (here \<open>upload_size\<close>, since \<open>size\<close> is a HOL
  constant), the \<open>filename\<close>, and the bytes that \<open>audio.read()\<close> returns.
\<close>

record upload_file =
  filename :: "str option"
  upload_size :: "int option"
  payload :: "nat list"

text \<open>
  What the libraries and the operating system answer during one call. A failing call is
  given by the message of the exception it raises.
  \<^item> \<open>sleep_wakeups\<close>: the values of \<open>whisper_model\<close> and \<open>model_loading\<close> that a waiting
    call finds each time \<open>asyncio.sleep(0.1)\<close> returns (another task may have set them);
  \<^item> \<open>parse_float\<close> is the response schema's reading of a numeric string as a float.
\<close>

record 'm stt_env = host_env +
  whisper_load_model :: "str \<Rightarrow> str + 'm"
  sleep_wakeups :: "('m option \<times> bool) list"
  open_wb :: "str \<Rightarrow> str option"
  ffmpeg_run :: "str \<Rightarrow> str \<Rightarrow> nat \<Rightarrow> filesystem \<Rightarrow> str option \<times> filesystem"
  librosa_load :: "str \<Rightarrow> nat \<Rightarrow> filesystem \<Rightarrow> str + real list"
  sf_write :: "str \<Rightarrow> real list \<Rightarrow> nat \<Rightarrow> filesystem \<Rightarrow> str option \<times> filesystem"
  transcribe :: "'m \<Rightarrow> str \<Rightarrow> filesystem \<Rightarrow> str + (str \<rightharpoonup> pyval)"
  elapsed_seconds :: real
  remove_fails :: "str \<Rightarrow> str option"
  parse_float :: "str \<Rightarrow> real option"

subsection \<open>Model loading (lines 59-91)\<close>

definition get_device :: "stt_config \<Rightarrow> bool \<Rightarrow> str" where
  "get_device cfg cuda =
     (if TORCH_DEVICE cfg = lit ''auto''
      then (if cuda \<and> ENABLE_GPU cfg then lit ''cuda'' else lit ''cpu'')
      else TORCH_DEVICE cfg)"

text \<open>
  Lines 74-75, \<open>while model_loading: await asyncio.sleep(0.1)\<close>. The loop ends when
  \<open>model_loading\<close> is found false. \<open>None\<close>: the call is still waiting when the wake-ups
  run out (it never returns if no wake-up finds the flag cleared).
\<close>

fun wait_while_loading :: "('m option \<times> bool) list \<Rightarrow> 'm stt_globals \<Rightarrow> 'm stt_globals option" where
  "wait_while_loading [] g = (if model_loading g then None else Some g)"
| "wait_while_loading ((m, l) # wakeups) g =
     (if model_loading g
      then wait_while_loading wakeups (g\<lparr>model_loading := l, whisper_model := m\<rparr>)
      else Some g)"

text \<open>
  \<open>load_whisper_model\<close>. The result, when the call returns: the globals, what the call
  returns or raises, and how many times it called \<open>whisper.load_model\<close>.
\<close>

definition load_whisper_model ::
  "stt_config \<Rightarrow> 'm stt_env \<Rightarrow> 'm stt_globals \<Rightarrow>
     ('m stt_globals \<times> (py_exception + 'm option) \<times> nat) option" where
  "load_whisper_model cfg env g =
     (if whisper_model g \<noteq> None then Some (g, Inr (whisper_model g), 0)
      else if model_loading g then
        (case wait_while_loading (sleep_wakeups env) g of
           None \<Rightarrow> None
         | Some g' \<Rightarrow> Some (g', Inr (whisper_model g'), 0))
      else
        (let g1 = g\<lparr>model_loading := True\<rparr>;
             device = get_device cfg (cuda_is_available env)
         in case whisper_load_model env device of
              Inr model \<Rightarrow>
                Some (g1\<lparr>whisper_model := Some model, model_loading := False\<rparr>,
                      Inr (Some model), 1)
            | Inl msg \<Rightarrow> Some (g1\<lparr>model_loading := False\<rparr>, Inl (Exception msg), 1)))"

subsection \<open>Audio conversion (lines 103-124)\<close>

datatype conv_call = Ffmpeg | LibrosaLoad | SfWrite

text \<open>
  \<open>convert_audio_format\<close>: the file system afterwards, the library calls it made in
  order, and what it returns (\<open>Inr\<close>) or raises (\<open>Inl\<close>).
\<close>

definition convert_audio_format ::
  "'m stt_env \<Rightarrow> str \<Rightarrow> str \<Rightarrow> nat \<Rightarrow> filesystem \<Rightarrow>
     filesystem \<times> conv_call list \<times> (py_exception + bool)" where
  "convert_audio_format env input_path output_path target_sr fs =
     (case ffmpeg_run env input_path output_path target_sr fs of
        (None, fs1) \<Rightarrow> (fs1, [Ffmpeg], Inr True)
      | (Some e, fs1) \<Rightarrow>
          (case librosa_load env input_path target_sr fs1 of
             Inl e2 \<Rightarrow> (fs1, [Ffmpeg, LibrosaLoad], Inr False)
           | Inr audio \<Rightarrow>
               (case sf_write env output_path audio target_sr fs1 of
                  (None, fs2) \<Rightarrow> (fs2, [Ffmpeg, LibrosaLoad, SfWrite], Inr True)
                | (Some e2, fs2) \<Rightarrow> (fs2, [Ffmpeg, LibrosaLoad, SfWrite], Inr False))))"

subsection \<open>The \<open>/transcribe\<close> handler (lines 142-224)\<close>

record transcription_response =
  transcription :: str
  language :: str
  duration :: real
  processing_time :: real

text \<open>The response schema (lines 47-51): a \<open>str\<close> field takes a string, a \<open>float\<close> field a
  number or a numeric string.\<close>

fun validate_str :: "pyval \<Rightarrow> str option" where
  "validate_str (PStr s) = Some s"
| "validate_str v = None"

fun validate_float :: "(str \<Rightarrow> real option) \<Rightarrow> pyval \<Rightarrow> real option" where
  "validate_float parse (PNum r) = Some r"
| "validate_float parse (PStr s) = parse s"
| "validate_float parse PNone = None"

text \<open>Lines 168-170.\<close>

definition temp_input_path :: "stt_config \<Rightarrow> str \<Rightarrow> upload_file \<Rightarrow> str" where
  "temp_input_path cfg file_id audio =
     path_join (TEMP_AUDIO_DIR cfg) (lit ''input_'' @ file_id @ lit ''_'' @ format_opt (filename audio))"

definition temp_output_path :: "stt_config \<Rightarrow> str \<Rightarrow> str" where
  "temp_output_path cfg file_id =
     path_join (TEMP_AUDIO_DIR cfg) (lit ''converted_'' @ file_id @ lit ''.wav'')"

text \<open>Lines 173-175: \<open>open(temp_input_path, "wb")\<close> and the write of the upload.\<close>

definition save_upload ::
  "'m stt_env \<Rightarrow> upload_file \<Rightarrow> str \<Rightarrow> filesystem \<Rightarrow> py_exception + filesystem" where
  "save_upload env audio path fs =
     (case open_wb env path of
        Some msg \<Rightarrow> Inl (Exception msg)
      | None \<Rightarrow> Inr (fs(path \<mapsto> payload audio)))"

text \<open>
  Lines 178-185: the path given to the model. \<open>audio.filename.lower()\<close> raises
  AttributeError when the filename is \<open>None\<close>; the \<open>except\<close> of line 184 keeps the input.
\<close>

definition choose_audio_path ::
  "'m stt_env \<Rightarrow> upload_file \<Rightarrow> str \<Rightarrow> str \<Rightarrow> filesystem \<Rightarrow> str \<times> filesystem" where
  "choose_audio_path env audio inp outp fs =
     (case filename audio of
        None \<Rightarrow> (inp, fs)
      | Some name \<Rightarrow>
          if \<not> endswith (py_lower env name) (lit ''.wav'') then
            (case convert_audio_format env inp outp 16000 fs of
               (fs', calls, Inr True) \<Rightarrow> (outp, fs')
             | (fs', calls, r) \<Rightarrow> (inp, fs'))
          else (inp, fs))"

text \<open>Lines 203-209: the immediate removal; an exception is logged and ends it.\<close>

definition remove_now :: "'m stt_env \<Rightarrow> str \<Rightarrow> str \<Rightarrow> filesystem \<Rightarrow> filesystem" where
  "remove_now env inp outp fs =
     (let step = (\<lambda>p fs0. if fs0 p \<noteq> None
                           then (case remove_fails env p of
                                   Some msg \<Rightarrow> Inl msg
                                 | None \<Rightarrow> Inr (fs0(p := None)))
                           else Inr fs0)
      in case step inp fs of
           Inl msg \<Rightarrow> fs
         | Inr fs1 \<Rightarrow> (case step outp fs1 of Inl msg \<Rightarrow> fs1 | Inr fs2 \<Rightarrow> fs2))"

text \<open>Lines 197 and 211-216: the response built from the model's result.\<close>

definition make_response ::
  "'m stt_env \<Rightarrow> (str \<rightharpoonup> pyval) \<Rightarrow> py_exception + transcription_response" where
  "make_response env result =
     (let duration_arg = dict_get result (lit ''duration'') (PNum 0) in
      case result (lit ''text'') of
        None \<Rightarrow> Inl (KeyError (lit ''text''))
      | Some (PStr t) \<Rightarrow>
          (case validate_str (dict_get result (lit ''language'') (PStr (lit ''unknown''))) of
             None \<Rightarrow> Inl ValidationError
           | Some lang \<Rightarrow>
               (case validate_float (parse_float env) duration_arg of
                  None \<Rightarrow> Inl ValidationError
                | Some d \<Rightarrow>
                    Inr \<lparr>transcription = strip t, language = lang, duration = d,
                         processing_time = elapsed_seconds env\<rparr>))
      | Some v \<Rightarrow> Inl AttributeError)"

text \<open>
  The state a call works on, and what a call that returns leaves behind:
  \<open>counter_writes\<close> lists the values the call assigned to \<open>current_requests\<close>, in order;
  \<open>cleanup_scheduled\<close> says whether \<open>cleanup_temp_files\<close> was added to the background
  tasks; \<open>outcome\<close> is the response, or the exception the handler raises.
\<close>

record 'm stt_result =
  globals_after :: "'m stt_globals"
  fs_after :: filesystem
  counter_writes :: "int list"
  cleanup_scheduled :: bool
  outcome :: "py_exception + transcription_response"

text \<open>
  The body of the \<open>try\<close> (lines 158-216): globals, file system, whether the cleanup was
  scheduled, and the response or the exception raised inside the \<open>try\<close>. A model object
  is true in a condition, so \<open>not model\<close> holds for \<open>None\<close> only.
\<close>

definition transcribe_body ::
  "stt_config \<Rightarrow> 'm stt_env \<Rightarrow> upload_file \<Rightarrow> 'm stt_globals \<Rightarrow> filesystem \<Rightarrow>
     ('m stt_globals \<times> filesystem \<times> bool \<times> (py_exception + transcription_response)) option" where
  "transcribe_body cfg env audio g fs =
     (if (case upload_size audio of None \<Rightarrow> False
          | Some n \<Rightarrow> n \<noteq> 0 \<and> n > MAX_AUDIO_SIZE cfg)
      then Some (g, fs, False, Inl (HTTPException 413 (lit ''Audio file too medium'')))
      else
        (case load_whisper_model cfg env g of
           None \<Rightarrow> None
         | Some (g1, Inl e, n) \<Rightarrow> Some (g1, fs, False, Inl e)
         | Some (g1, Inr None, n) \<Rightarrow>
             Some (g1, fs, False, Inl (HTTPException 503 (lit ''Failed to load Whisper model'')))
         | Some (g1, Inr (Some model), n) \<Rightarrow>
             (let file_id = uuid4 env;
                  inp = temp_input_path cfg file_id audio;
                  outp = temp_output_path cfg file_id
              in case save_upload env audio inp fs of
                   Inl e \<Rightarrow> Some (g1, fs, False, Inl e)
                 | Inr fs1 \<Rightarrow>
                     (case choose_audio_path env audio inp outp fs1 of
                        (audio_path, fs2) \<Rightarrow>
                          (case transcribe env model audio_path fs2 of
                             Inl msg \<Rightarrow> Some (g1, fs2, False, Inl (Exception msg))
                           | Inr result \<Rightarrow>
                               Some (g1, remove_now env inp outp fs2, True,
                                     make_response env result))))))"

text \<open>
  Line 218-222: an \<open>HTTPException\<close> is raised again, any other exception becomes a 500.
\<close>

fun reraise :: "'m stt_env \<Rightarrow> py_exception \<Rightarrow> py_exception" where
  "reraise env (HTTPException code detail) = HTTPException code detail"
| "reraise env e = HTTPException 500 (lit ''Transcription failed: '' @ str_of env e)"

text \<open>
  \<open>transcribe_audio\<close>: the gate (lines 151-152), the increment (line 154), the \<open>try\<close>
  and its \<open>finally\<close> (line 224). \<open>None\<close>: the call never returns (it waits for a load
  that is never seen to end).
\<close>

definition transcribe_audio ::
  "stt_config \<Rightarrow> 'm stt_env \<Rightarrow> upload_file \<Rightarrow> 'm stt_globals \<Rightarrow> filesystem \<Rightarrow>
     'm stt_result option" where
  "transcribe_audio cfg env audio g fs =
     (if current_requests g \<ge> MAX_CONCURRENT_REQUESTS cfg then
        Some \<lparr>globals_after = g, fs_after = fs, counter_writes = [],
              cleanup_scheduled = False,
              outcome = Inl (HTTPException 429 (lit ''Too many concurrent requests''))\<rparr>
      else
        (let g1 = g\<lparr>current_requests := current_requests g + 1\<rparr> in
         case transcribe_body cfg env audio g1 fs of
           None \<Rightarrow> None
         | Some (g2, fs2, scheduled, r) \<Rightarrow>
             (let g3 = g2\<lparr>current_requests := current_requests g2 - 1\<rparr> in
              Some \<lparr>globals_after = g3, fs_after = fs2,
                    counter_writes = [current_requests g1, current_requests g3],
                    cleanup_scheduled = scheduled,
                    outcome = (case r of Inl e \<Rightarrow> Inl (reraise env e) | Inr resp \<Rightarrow> Inr resp)\<rparr>)))"

text \<open>
  Requests served one after the other, each with its own answers of the outside world:
  the final state and all values written to \<open>current_requests\<close>.
\<close>

fun serve_sequentially ::
  "stt_config \<Rightarrow> ('m stt_env \<times> upload_file) list \<Rightarrow> 'm stt_globals \<Rightarrow> filesystem \<Rightarrow>
     ('m stt_globals \<times> filesystem \<times> int list) option" where
  "serve_sequentially cfg [] g fs = Some (g, fs, [])"
| "serve_sequentially cfg ((env, audio) # reqs) g fs =
     (case transcribe_audio cfg env audio g fs of
        None \<Rightarrow> None
      | Some r \<Rightarrow>
          (case serve_sequentially cfg reqs (globals_after r) (fs_after r) of
             None \<Rightarrow> None
           | Some (g', fs', ws) \<Rightarrow> Some (g', fs', counter_writes r @ ws)))"

section \<open>The TTS service (tts-service/main.py)\<close>

subsection \<open>Configuration, globals, request and response\<close>

text \<open>Lines 37-42 and 45-47. The type \<open>'m\<close> is the opaque XTTS model.\<close>

record tts_config = torch_config +
  AUDIO_OUTPUT_DIR :: str
  MAX_TEXT_LENGTH :: int
  TTS_MODEL_NAME :: str
  DEFAULT_LANGUAGE :: str

record 'm tts_globals = loader_flags +
  tts_model :: "'m option"
  model_loaded :: bool

text \<open>
  Lines 53-70. Field names that another record of this theory already has, or that are
  keywords, carry a prefix: \<open>vs_language\<close> is \<open>VoiceSettings.language\<close>, \<open>req_text\<close> and
  \<open>req_language\<close> are \<open>TTSRequest.text\<close> and \<open>.language\<close>, \<open>tts_duration\<close> is
  \<open>TTSResponse.duration\<close>.
\<close>

record VoiceSettings =
  speaker :: "str option"
  speed :: "real option"
  emotion :: "str option"
  vs_language :: "str option"

record TTSRequest =
  req_text :: str
  voice_settings :: "VoiceSettings option"
  audio_format :: "str option"
  req_language :: "str option"

record TTSResponse =
  audio_url :: str
  tts_duration :: "real option"
  file_size :: nat
  status :: str
  message :: str

text \<open>
  What the request schema accepts (the \<open>pattern\<close>, \<open>max_length\<close>, \<open>ge\<close> and \<open>le\<close> of lines
  54-63): the handler only ever sees such a request.
\<close>

definition valid_language :: "str option \<Rightarrow> bool" where
  "valid_language l \<longleftrightarrow>
     l = None \<or> l = Some (lit ''en'') \<or> l = Some (lit ''ru'') \<or> l = Some (lit ''auto'')"

definition valid_settings :: "VoiceSettings \<Rightarrow> bool" where
  "valid_settings vs \<longleftrightarrow>
     (case speed vs of None \<Rightarrow> True | Some x \<Rightarrow> 1 / 2 \<le> x \<and> x \<le> 2) \<and>
     (case emotion vs of None \<Rightarrow> True
      | Some e \<Rightarrow> e = lit ''neutral'' \<or> e = lit ''professional'' \<or> e = lit ''friendly'' \<or>
                  e = lit ''excited'') \<and>
     valid_language (vs_language vs)"

definition valid_request :: "tts_config \<Rightarrow> TTSRequest \<Rightarrow> bool" where
  "valid_request cfg r \<longleftrightarrow>
     int (length (req_text r)) \<le> MAX_TEXT_LENGTH cfg \<and>
     (case voice_settings r of None \<Rightarrow> True | Some vs \<Rightarrow> valid_settings vs) \<and>
     (audio_format r = None \<or> audio_format r = Some (lit ''wav'') \<or>
      audio_format r = Some (lit ''mp3'')) \<and>
     valid_language (req_language r)"

text \<open>The arguments of one \<open>tts_model.tts_to_file(...)\<close> call.\<close>

record tts_call =
  call_text :: str
  file_path :: str
  call_speaker :: "str option"
  call_language :: str

text \<open>
  The outside world of the TTS service: whether the TTS library was importable (lines
  16-20), the model constructor \<open>TTS(name).to(device)\<close>, the model's \<open>speakers\<close> attribute
  (\<open>None\<close> when it is absent or \<open>None\<close>), and \<open>tts_to_file\<close>, which may raise and leaves a
  file system behind.
\<close>

record 'm tts_env = host_env +
  TTS_AVAILABLE :: bool
  TTS_to :: "str \<Rightarrow> str \<Rightarrow> str + 'm"
  speakers :: "'m \<Rightarrow> str list option"
  tts_to_file :: "'m \<Rightarrow> tts_call \<Rightarrow> filesystem \<Rightarrow> str option \<times> filesystem"

subsection \<open>Model loading (lines 85-116)\<close>


subsection \<open>The \<open>/generate-speech\<close> handler (lines 143-254)\<close>

text \<open>
  Lines 177-178: the two alphabets, as the code points of the source's literals
  (\<open>1072..1077\<close> is a..e of the Cyrillic alphabet, \<open>1105\<close> is io, \<open>1078..1103\<close> the rest).
\<close>

definition russian_chars :: "nat set" where
  "russian_chars = set [1072, 1073, 1074, 1075, 1076, 1077, 1105, 1078, 1079, 1080, 1081,
     1082, 1083, 1084, 1085, 1086, 1087, 1088, 1089, 1090, 1091, 1092, 1093, 1094, 1095,
     1096, 1097, 1098, 1099, 1100, 1101, 1102, 1103]"

definition english_chars :: "nat set" where
  "english_chars = set (lit ''abcdefghijklmnopqrstuvwxyz'')"

text \<open>Lines 181-188: the counts over the lowercased text and the comparison.\<close>

definition rus_count :: "(str \<Rightarrow> str) \<Rightarrow> str \<Rightarrow> nat" where
  "rus_count lower clean_text = length (filter (\<lambda>c. c \<in> russian_chars) (lower clean_text))"

definition eng_count :: "(str \<Rightarrow> str) \<Rightarrow> str \<Rightarrow> nat" where
  "eng_count lower clean_text = length (filter (\<lambda>c. c \<in> english_chars) (lower clean_text))"

definition detect_language :: "(str \<Rightarrow> str) \<Rightarrow> str \<Rightarrow> str" where
  "detect_language lower clean_text =
     (if rus_count lower clean_text > eng_count lower clean_text then lit ''ru'' else lit ''en'')"

text \<open>A Python \<open>Optional[str]\<close> in a condition: true for a non-empty string.\<close>

fun truthy :: "str option \<Rightarrow> bool" where
  "truthy None = False"
| "truthy (Some s) = (s \<noteq> [])"

text \<open>Lines 167-188: the language of the synthesis.\<close>

definition choose_language :: "tts_config \<Rightarrow> (str \<Rightarrow> str) \<Rightarrow> TTSRequest \<Rightarrow> str \<Rightarrow> str" where
  "choose_language cfg lower request clean_text =
     (if truthy (req_language request) then the (req_language request)
      else if (case voice_settings request of None \<Rightarrow> False | Some vs \<Rightarrow> truthy (vs_language vs))
      then the (vs_language (the (voice_settings request)))
      else if clean_text \<noteq> [] then detect_language lower clean_text
      else DEFAULT_LANGUAGE cfg)"

text \<open>
  Lines 194-231: the speaker passed to \<open>tts_to_file\<close>; \<open>None\<close> is a call without the
  \<open>speaker\<close> argument.
\<close>

definition choose_speaker :: "str list option \<Rightarrow> str \<Rightarrow> str option" where
  "choose_speaker model_speakers lang =
     (let speaker_name = (if lang = lit ''ru'' then lit ''Dmitrii'' else lit ''Claribel Dervla'') in
      case model_speakers of
        None \<Rightarrow> None
      | Some sp \<Rightarrow>
          if sp = [] then None
          else if speaker_name \<in> set sp then Some speaker_name
          else (let first_speaker = hd sp in
                if first_speaker \<noteq> [] then Some first_speaker else None))"

text \<open>Line 157 and line 158.\<close>

definition output_filename :: "str \<Rightarrow> TTSRequest \<Rightarrow> str" where
  "output_filename file_id request =
     lit ''tts_'' @ file_id @ lit ''.'' @ format_opt (audio_format request)"

definition output_path :: "tts_config \<Rightarrow> str \<Rightarrow> TTSRequest \<Rightarrow> str" where
  "output_path cfg file_id request =
     path_join (AUDIO_OUTPUT_DIR cfg) (output_filename file_id request)"

text \<open>The one \<open>tts_to_file\<close> call the handler makes (whichever branch of lines 199-231).\<close>

definition synthesis_call :: "tts_config \<Rightarrow> 'm tts_env \<Rightarrow> 'm \<Rightarrow> TTSRequest \<Rightarrow> tts_call" where
  "synthesis_call cfg env model request =
     (let clean_text = strip (req_text request);
          lang = choose_language cfg (py_lower env) request clean_text
      in \<lparr>call_text = clean_text,
          file_path = output_path cfg (uuid4 env) request,
          call_speaker = choose_speaker (speakers env model) lang,
          call_language = lang\<rparr>)"

definition getsize :: "filesystem \<Rightarrow> str \<Rightarrow> py_exception + nat" where
  "getsize fs p = (case fs p of None \<Rightarrow> Inl (OSError p) | Some bytes \<Rightarrow> Inr (length bytes))"

text \<open>Line 254.\<close>

definition generation_failed :: "'m tts_env \<Rightarrow> py_exception \<Rightarrow> py_exception" where
  "generation_failed env e =
     HTTPException 500 (lit ''Failed to generate speech: '' @ str_of env e)"

text \<open>
  \<open>generate_speech\<close>: the globals and the file system afterwards, whether
  \<open>cleanup_old_files\<close> was added to the background tasks, and the response or the
  exception raised.
\<close>

definition generate_speech ::
  "tts_config \<Rightarrow> 'm tts_env \<Rightarrow> TTSRequest \<Rightarrow> 'm tts_globals \<Rightarrow> filesystem \<Rightarrow>
     'm tts_globals \<times> filesystem \<times> bool \<times> (py_exception + TTSResponse)" where
  "generate_speech cfg env request g fs =
     (if \<not> model_loaded g \<or> tts_model g = None
      then (g, fs, False, Inl (HTTPException 503 (lit ''TTS model not loaded'')))
      else if strip (req_text request) = []
      then (g, fs, False, Inl (HTTPException 400 (lit ''Text cannot be empty'')))
      else
        (let model = the (tts_model g);
             call = synthesis_call cfg env model request
         in case tts_to_file env model call fs of
              (Some msg, fs1) \<Rightarrow> (g, fs1, False, Inl (generation_failed env (Exception msg)))
            | (None, fs1) \<Rightarrow>
                (case getsize fs1 (file_path call) of
                   Inl e \<Rightarrow> (g, fs1, False, Inl (generation_failed env e))
                 | Inr n \<Rightarrow>
                     (let word_count = length (py_split (call_text call));
                          estimated_duration = (real word_count / 150) * 60
                      in (g, fs1, True,
                          Inr \<lparr>audio_url = lit ''/audio/'' @ output_filename (uuid4 env) request,
                               tts_duration = Some estimated_duration,
                               file_size = n,
                               status = lit ''success'',
                               message = lit ''Speech generated successfully''\<rparr>)))))"

section \<open>Auxiliary notions and example inputs\<close>

text \<open>Whether an exception is FastAPI's \<open>HTTPException\<close> (what \<open>except HTTPException\<close> catches).\<close>

fun is_http :: "py_exception \<Rightarrow> bool" where
  "is_http (HTTPException code detail) = True"
| "is_http e = False"

text \<open>
  Lines 119-121 taken alone: \<open>librosa.load\<close> and then \<open>sf.write\<close> both return, on the file
  system that the failed ffmpeg run left.
\<close>

definition fallback_succeeds :: "'m stt_env \<Rightarrow> str \<Rightarrow> str \<Rightarrow> nat \<Rightarrow> filesystem \<Rightarrow> bool" where
  "fallback_succeeds env inp outp target_sr fs1 =
     (case librosa_load env inp target_sr fs1 of
        Inl e \<Rightarrow> False
      | Inr audio \<Rightarrow> fst (sf_write env outp audio target_sr fs1) = None)"

text \<open>
  The inputs of the examples. \<open>basic_lower\<close> agrees with \<open>str.lower\<close> on ASCII and on the
  Russian alphabet, which is all the examples contain; \<open>plain_str_of\<close> stands for
  \<open>str(e)\<close>. The configurations are the defaults of the source.
\<close>

definition basic_lower :: "str \<Rightarrow> str" where
  "basic_lower s =
     map (\<lambda>c. if (65 \<le> c \<and> c \<le> 90) \<or> (1040 \<le> c \<and> c \<le> 1071) then c + 32
              else if c = 1025 then 1105 else c) s"

fun plain_str_of :: "py_exception \<Rightarrow> str" where
  "plain_str_of (HTTPException code detail) = detail"
| "plain_str_of (KeyError k) = k"
| "plain_str_of AttributeError = lit ''AttributeError''"
| "plain_str_of ValidationError = lit ''ValidationError''"
| "plain_str_of (OSError p) = p"
| "plain_str_of (Exception msg) = msg"

text \<open>
  The STT service: a world in which every library call succeeds, the model being the
  number 7; an upload; globals with a given model and counter; two other model results;
  worlds without ffmpeg, without any working converter, and one in which a waiting call
  is woken twice.
\<close>

definition default_stt_config :: stt_config where
  "default_stt_config =
     \<lparr>TORCH_DEVICE = lit ''auto'', ENABLE_GPU = True, TEMP_AUDIO_DIR = lit ''./temp'',
      MAX_AUDIO_SIZE = 52428800, MAX_CONCURRENT_REQUESTS = 5\<rparr>"

definition example_result :: "str \<rightharpoonup> pyval" where
  "example_result =
     [lit ''text'' \<mapsto> PStr (lit '' hi ''), lit ''language'' \<mapsto> PStr (lit ''en'')]"

definition timed_result :: "str \<rightharpoonup> pyval" where
  "timed_result =
     [lit ''text'' \<mapsto> PStr (lit '' so it goes  ''), lit ''duration'' \<mapsto> PNum (5 / 2)]"

definition example_stt_env :: "nat stt_env" where
  "example_stt_env =
     \<lparr>cuda_is_available = False, uuid4 = lit ''id1'', py_lower = basic_lower,
      str_of = plain_str_of,
      whisper_load_model = (\<lambda>device. Inr 7),
      sleep_wakeups = [],
      open_wb = (\<lambda>p. None),
      ffmpeg_run = (\<lambda>inp outp sr fs. (None, fs(outp \<mapsto> [0]))),
      librosa_load = (\<lambda>inp sr fs. Inr []),
      sf_write = (\<lambda>outp audio sr fs. (None, fs(outp \<mapsto> [0]))),
      transcribe = (\<lambda>model p fs. Inr example_result),
      elapsed_seconds = 3 / 2,
      remove_fails = (\<lambda>p. None),
      parse_float = (\<lambda>s. None)\<rparr>"

definition no_ffmpeg_env :: "nat stt_env" where
  "no_ffmpeg_env =
     example_stt_env\<lparr>ffmpeg_run := (\<lambda>inp outp sr fs. (Some (lit ''ffmpeg: not found''), fs))\<rparr>"

definition no_converter_env :: "nat stt_env" where
  "no_converter_env =
     no_ffmpeg_env\<lparr>librosa_load := (\<lambda>inp sr fs. Inl (lit ''cannot decode''))\<rparr>"


definition example_upload :: upload_file where
  "example_upload =
     \<lparr>filename = Some (lit ''a.mp3''), upload_size = Some 3, payload = [1, 2, 3]\<rparr>"

definition stt_globals_with :: "nat option \<Rightarrow> int \<Rightarrow> nat stt_globals" where
  "stt_globals_with m n = \<lparr>model_loading = False, whisper_model = m, current_requests = n\<rparr>"

text \<open>
  The TTS service: a world in which the model is the number 9 and every synthesis writes
  four bytes. The text of the example request is the Russian word "privet" in Cyrillic
  letters followed by "Hi", between blanks (six Cyrillic and two Latin letters); in
  another text of the examples, \<open>[1044, 1072, 32, 111, 107]\<close> is the Russian "da" in
  Cyrillic letters followed by "ok" (two and two).
\<close>

definition default_tts_config :: tts_config where
  "default_tts_config =
     \<lparr>TORCH_DEVICE = lit ''auto'', ENABLE_GPU = True, AUDIO_OUTPUT_DIR = lit ''./audio'',
      MAX_TEXT_LENGTH = 1000,
      TTS_MODEL_NAME = lit ''tts_models/multilingual/multi-dataset/xtts_v2'',
      DEFAULT_LANGUAGE = lit ''en''\<rparr>"

definition example_tts_env :: "nat tts_env" where
  "example_tts_env =
     \<lparr>cuda_is_available = False, uuid4 = lit ''id2'', py_lower = basic_lower,
      str_of = plain_str_of,
      TTS_AVAILABLE = True,
      TTS_to = (\<lambda>name device. Inr 9),
      speakers = (\<lambda>model. Some [lit ''Claribel Dervla'', lit ''Dmitrii'']),
      tts_to_file = (\<lambda>model call fs. (None, fs(file_path call \<mapsto> [82, 73, 70, 70])))\<rparr>"

text \<open>The same world, except that a synthesis writes the language it was called with.\<close>

definition echo_tts_env :: "nat tts_env" where
  "echo_tts_env =
     example_tts_env\<lparr>tts_to_file :=
       (\<lambda>model call fs. (None, fs(file_path call \<mapsto> call_language call)))\<rparr>"

definition tts_globals_with :: "bool \<Rightarrow> nat option \<Rightarrow> bool \<Rightarrow> nat tts_globals" where
  "tts_globals_with loading m loaded =
     \<lparr>model_loading = loading, tts_model = m, model_loaded = loaded\<rparr>"

definition example_settings :: VoiceSettings where
  "example_settings =
     \<lparr>speaker = Some (lit ''default''), speed = Some 1, emotion = Some (lit ''neutral''),
      vs_language = None\<rparr>"

definition example_request :: TTSRequest where
  "example_request =
     \<lparr>req_text = [32, 1055, 1088, 1080, 1074, 1077, 1090, 32, 72, 105, 32, 10],
      voice_settings = Some example_settings,
      audio_format = Some (lit ''mp3''),
      req_language = None\<rparr>"

text \<open>
  Two directories. \<open>example_dir\<close>: a file created at time 0, one created at time 200,
  one created at time 1000 and a subdirectory created at time 0, all removable.
  \<open>locked_dir\<close>: two files created at time 0, the first of which cannot be removed.
\<close>

definition example_dir :: directory where
  "example_dir =
     [lit ''old.wav'' \<mapsto> \<lparr>is_regular = True, ctime = 0, removable = True\<rparr>,
      lit ''edge.wav'' \<mapsto> \<lparr>is_regular = True, ctime = 200, removable = True\<rparr>,
      lit ''new.wav'' \<mapsto> \<lparr>is_regular = True, ctime = 1000, removable = True\<rparr>,
      lit ''sub'' \<mapsto> \<lparr>is_regular = False, ctime = 0, removable = True\<rparr>]"

definition example_listing :: "str list" where
  "example_listing = [lit ''new.wav'', lit ''sub'', lit ''old.wav'', lit ''edge.wav'']"

definition locked_dir :: directory where
  "locked_dir =
     [lit ''a.wav'' \<mapsto> \<lparr>is_regular = True, ctime = 0, removable = False\<rparr>,
      lit ''b.wav'' \<mapsto> \<lparr>is_regular = True, ctime = 0, removable = True\<rparr>]"

text \<open>The definitions to unfold when an example is evaluated.\<close>

lemmas stt_handler_defs =
  transcribe_audio_def transcribe_body_def load_whisper_model_def get_device_def
  save_upload_def choose_audio_path_def convert_audio_format_def make_response_def
  dict_get_def temp_input_path_def temp_output_path_def path_join_def remove_now_def
  endswith_def lit_def strip_def isspace_def Let_def

lemmas stt_example_defs =
  default_stt_config_def example_stt_env_def example_upload_def stt_globals_with_def
  example_result_def basic_lower_def

lemmas tts_handler_defs =
  generate_speech_def synthesis_call_def choose_language_def detect_language_def
  rus_count_def eng_count_def choose_speaker_def output_path_def output_filename_def
  getsize_def generation_failed_def path_join_def py_split_def

lemmas tts_example_defs =
  default_tts_config_def example_tts_env_def tts_globals_with_def example_request_def
  example_settings_def basic_lower_def

section \<open>The STT handler: what the body of the \<open>try\<close> can do\<close>

lemma wait_keeps_counter:
  "wait_while_loading ws g = Some g' \<Longrightarrow> current_requests g' = current_requests g"
  by (induction ws g rule: wait_while_loading.induct) (auto split: if_splits)

lemma load_keeps_counter:
  "load_whisper_model cfg env g = Some (g', r, n) \<Longrightarrow> current_requests g' = current_requests g"
  by (auto simp: load_whisper_model_def Let_def wait_keeps_counter
      split: if_splits option.splits sum.splits)

lemma load_raises_plain:
  "load_whisper_model cfg env g = Some (g', Inl e, n) \<Longrightarrow> \<not> is_http e"
  by (auto simp: load_whisper_model_def Let_def split: if_splits option.splits sum.splits)

lemma save_raises_plain: "save_upload env audio p fs = Inl e \<Longrightarrow> \<not> is_http e"
  by (auto simp: save_upload_def split: option.splits)

lemma response_raises_plain: "make_response env result = Inl e \<Longrightarrow> \<not> is_http e"
  by (auto simp: make_response_def Let_def split: option.splits pyval.splits)

lemma body_keeps_counter:
  "transcribe_body cfg env audio g fs = Some (g', fs', sch, r) \<Longrightarrow>
   current_requests g' = current_requests g"
  by (auto simp: transcribe_body_def Let_def dest: load_keeps_counter
      split: if_splits option.splits sum.splits prod.splits)

lemma body_raises:
  "transcribe_body cfg env audio g fs = Some (g', fs', sch, Inl e) \<Longrightarrow>
   e = HTTPException 413 (lit ''Audio file too medium'') \<or>
   e = HTTPException 503 (lit ''Failed to load Whisper model'') \<or> \<not> is_http e"
  by (auto simp: transcribe_body_def Let_def
      dest: load_raises_plain save_raises_plain response_raises_plain
      split: if_splits option.splits sum.splits prod.splits)

lemma reraise_plain:
  "\<not> is_http e \<Longrightarrow>
   reraise env e = HTTPException 500 (lit ''Transcription failed: '' @ str_of env e)"
  by (cases e) auto

lemma reraise_http: "reraise env (HTTPException code detail) = HTTPException code detail"
  by simp

text \<open>The status codes the handler can raise once a request is past the gate.\<close>

lemma body_status:
  assumes "transcribe_body cfg env audio g fs = Some (g', fs', sch, Inl e)"
  shows "\<exists>code detail. reraise env e = HTTPException code detail \<and> code \<in> {413, 503, 500}"
proof -
  from body_raises [OF assms] consider
      "e = HTTPException 413 (lit ''Audio file too medium'')"
    | "e = HTTPException 503 (lit ''Failed to load Whisper model'')"
    | "\<not> is_http e" by blast
  then show ?thesis
  proof cases
    case 1 then show ?thesis by simp
  next
    case 2 then show ?thesis by simp
  next
    case 3 then show ?thesis by (simp add: reraise_plain)
  qed
qed

text \<open>What a call returns on either side of the gate.\<close>

lemma admitted_result:
  assumes low: "current_requests g < MAX_CONCURRENT_REQUESTS cfg"
    and ret: "transcribe_audio cfg env audio g fs = Some r"
  shows "\<exists>g2 fs2 sch res.
           transcribe_body cfg env audio (g\<lparr>current_requests := current_requests g + 1\<rparr>) fs =
             Some (g2, fs2, sch, res) \<and>
           current_requests g2 = current_requests g + 1 \<and>
           r = \<lparr>globals_after = g2\<lparr>current_requests := current_requests g\<rparr>, fs_after = fs2,
                counter_writes = [current_requests g + 1, current_requests g],
                cleanup_scheduled = sch,
                outcome = (case res of Inl e \<Rightarrow> Inl (reraise env e) | Inr resp \<Rightarrow> Inr resp)\<rparr>"
proof -
  let ?g1 = "g\<lparr>current_requests := current_requests g + 1\<rparr>"
  from low ret obtain g2 fs2 sch res where
    body: "transcribe_body cfg env audio ?g1 fs = Some (g2, fs2, sch, res)" and
    r: "r = \<lparr>globals_after = g2\<lparr>current_requests := current_requests g2 - 1\<rparr>, fs_after = fs2,
             counter_writes = [current_requests ?g1, current_requests g2 - 1],
             cleanup_scheduled = sch,
             outcome = (case res of Inl e \<Rightarrow> Inl (reraise env e) | Inr resp \<Rightarrow> Inr resp)\<rparr>"
    by (auto simp: transcribe_audio_def Let_def split: option.splits)
  from body_keeps_counter [OF body] have "current_requests g2 = current_requests g + 1"
    by simp
  with body r show ?thesis by simp
qed

lemma rejected_result:
  assumes "MAX_CONCURRENT_REQUESTS cfg \<le> current_requests g"
  shows "transcribe_audio cfg env audio g fs =
        Some \<lparr>globals_after = g, fs_after = fs, counter_writes = [],
              cleanup_scheduled = False,
              outcome = Inl (HTTPException 429 (lit ''Too many concurrent requests''))\<rparr>"
  using assms by (simp add: transcribe_audio_def)

section \<open>C1: the admission gate of \<open>/transcribe\<close>\<close>

text \<open>
  Claim C1, as the code has it. The handler compares with \<open>>=\<close> (line 151): a call that
  finds \<open>current_requests\<close> at or above \<open>MAX_CONCURRENT_REQUESTS\<close> raises HTTP 429 with the
  detail "Too many concurrent requests", writes nothing to \<open>current_requests\<close> and leaves
  the globals and the file system as they were. A call that finds the counter strictly
  below the threshold is admitted: its first write sets the counter to one more, and
  whatever it raises afterwards is not a 429.
\<close>

theorem admission_gate:
  "(MAX_CONCURRENT_REQUESTS cfg \<le> current_requests g \<longrightarrow>
      transcribe_audio cfg env audio g fs =
        Some \<lparr>globals_after = g, fs_after = fs, counter_writes = [],
              cleanup_scheduled = False,
              outcome = Inl (HTTPException 429 (lit ''Too many concurrent requests''))\<rparr>) \<and>
   (current_requests g < MAX_CONCURRENT_REQUESTS cfg \<longrightarrow>
      (\<forall>r. transcribe_audio cfg env audio g fs = Some r \<longrightarrow>
           hd (counter_writes r) = current_requests g + 1 \<and>
           (\<forall>detail. outcome r \<noteq> Inl (HTTPException 429 detail))))"
proof (intro conjI impI allI)
  assume "MAX_CONCURRENT_REQUESTS cfg \<le> current_requests g"
  then show "transcribe_audio cfg env audio g fs =
        Some \<lparr>globals_after = g, fs_after = fs, counter_writes = [],
              cleanup_scheduled = False,
              outcome = Inl (HTTPException 429 (lit ''Too many concurrent requests''))\<rparr>"
    by (simp add: transcribe_audio_def)
next
  fix r
  assume low: "current_requests g < MAX_CONCURRENT_REQUESTS cfg"
    and ret: "transcribe_audio cfg env audio g fs = Some r"
  let ?g1 = "g\<lparr>current_requests := current_requests g + 1\<rparr>"
  from low ret obtain g2 fs2 sch res where
    body: "transcribe_body cfg env audio ?g1 fs = Some (g2, fs2, sch, res)" and
    r: "r = \<lparr>globals_after = g2\<lparr>current_requests := current_requests g2 - 1\<rparr>, fs_after = fs2,
             counter_writes = [current_requests ?g1, current_requests g2 - 1],
             cleanup_scheduled = sch,
             outcome = (case res of Inl e \<Rightarrow> Inl (reraise env e) | Inr resp \<Rightarrow> Inr resp)\<rparr>"
    by (auto simp: transcribe_audio_def Let_def split: option.splits)
  show "hd (counter_writes r) = current_requests g + 1"
    by (simp add: r)
  show "outcome r \<noteq> Inl (HTTPException 429 detail)" for detail
  proof (cases res)
    case (Inl e)
    with body_status [of cfg env audio ?g1 fs g2 fs2 sch e] body
    show ?thesis by (auto simp: r)
  next
    case (Inr resp)
    then show ?thesis by (simp add: r)
  qed
qed

text \<open>
  With the default threshold 5: a call that finds the counter at 6 is rejected and leaves
  the globals alone; a call that finds it at 4 is admitted, sets it to 5 and is served.
\<close>

theorem admission_gate_witness:
  "map_option outcome (transcribe_audio default_stt_config example_stt_env example_upload
      (stt_globals_with None 6) Map.empty) =
     Some (Inl (HTTPException 429 (lit ''Too many concurrent requests''))) \<and>
   map_option globals_after (transcribe_audio default_stt_config example_stt_env example_upload
      (stt_globals_with None 6) Map.empty) = Some (stt_globals_with None 6) \<and>
   map_option (hd \<circ> counter_writes) (transcribe_audio default_stt_config example_stt_env
      example_upload (stt_globals_with None 4) Map.empty) = Some 5 \<and>
   map_option outcome (transcribe_audio default_stt_config example_stt_env example_upload
      (stt_globals_with None 4) Map.empty) =
     Some (Inr \<lparr>transcription = lit ''hi'', language = lit ''en'', duration = 0,
                processing_time = 3 / 2\<rparr>)"
  using admission_gate [of default_stt_config "stt_globals_with None 6" example_stt_env
      example_upload Map.empty]
    admission_gate [of default_stt_config "stt_globals_with None 4" example_stt_env
      example_upload Map.empty]
  by (simp add: stt_handler_defs stt_example_defs)

text \<open>
  The claim as worded (rejected when the counter is above the threshold, admitted
  otherwise) fails at the threshold itself: with the counter at 5 and the threshold 5 the
  counter is not above the threshold, and the call is rejected with 429.
\<close>

theorem gate_rejects_at_threshold:
  "\<not> current_requests (stt_globals_with None 5) > MAX_CONCURRENT_REQUESTS default_stt_config \<and>
   map_option outcome (transcribe_audio default_stt_config example_stt_env example_upload
      (stt_globals_with None 5) Map.empty) =
     Some (Inl (HTTPException 429 (lit ''Too many concurrent requests'')))"
  by (simp add: transcribe_audio_def default_stt_config_def stt_globals_with_def)

section \<open>C2: the language of the synthesis\<close>

text \<open>
  The two alphabets of lines 177-178 are the code points \<open>1072..1103\<close> (the lowercase
  Cyrillic letters from a to ya) with \<open>1105\<close> (io), and \<open>97..122\<close> (the lowercase Latin
  letters from a to z).
\<close>

lemma cyrillic_codes: "[1072..<1104] = [1072, 1073, 1074, 1075, 1076, 1077, 1078, 1079, 1080, 1081,
     1082, 1083, 1084, 1085, 1086, 1087, 1088, 1089, 1090, 1091, 1092, 1093, 1094, 1095,
     1096, 1097, 1098, 1099, 1100, 1101, 1102, 1103]"
  by (simp add: upt_rec)

lemma latin_codes: "[97..<123] = lit ''abcdefghijklmnopqrstuvwxyz''"
  by (simp add: upt_rec lit_def)

lemma in_russian_chars: "c \<in> russian_chars \<longleftrightarrow> (1072 \<le> c \<and> c \<le> 1103) \<or> c = 1105"
proof -
  have "c \<in> russian_chars \<longleftrightarrow> c \<in> set [1072..<1104] \<or> c = 1105"
    unfolding cyrillic_codes russian_chars_def
    by (simp only: list.set insert_iff empty_iff) blast
  also have "\<dots> \<longleftrightarrow> c \<in> {1072..<1104} \<or> c = 1105"
    by (simp only: set_upt)
  also have "\<dots> \<longleftrightarrow> (1072 \<le> c \<and> c \<le> 1103) \<or> c = 1105"
    by (simp only: atLeastLessThan_iff) arith
  finally show ?thesis .
qed

lemma in_english_chars: "c \<in> english_chars \<longleftrightarrow> 97 \<le> c \<and> c \<le> 122"
proof -
  have "c \<in> english_chars \<longleftrightarrow> c \<in> set [97..<123]"
    by (simp only: latin_codes english_chars_def)
  also have "\<dots> \<longleftrightarrow> c \<in> {97..<123}"
    by (simp only: set_upt)
  also have "\<dots> \<longleftrightarrow> 97 \<le> c \<and> c \<le> 122"
    by (simp only: atLeastLessThan_iff) arith
  finally show ?thesis .
qed


lemma truthy_valid: "valid_language l \<Longrightarrow> truthy l \<longleftrightarrow> l \<noteq> None"
  by (auto simp: valid_language_def lit_def)

lemma rus_count_range:
  "rus_count lower s = length (filter (\<lambda>c. (1072 \<le> c \<and> c \<le> 1103) \<or> c = 1105) (lower s))"
  by (simp add: rus_count_def in_russian_chars)

lemma eng_count_range:
  "eng_count lower s = length (filter (\<lambda>c. 97 \<le> c \<and> c \<le> 122) (lower s))"
  by (simp add: eng_count_def in_english_chars)

text \<open>
  The language that \<open>synthesis_call\<close> puts into the call, for a request that has passed
  the schema and a text that does not strip to the empty string.
\<close>

lemma synthesis_language:
  assumes "valid_request cfg request" and "strip (req_text request) \<noteq> []"
  shows "call_language (synthesis_call cfg env model request) =
     (if req_language request \<noteq> None then the (req_language request)
      else if voice_settings request \<noteq> None \<and>
              vs_language (the (voice_settings request)) \<noteq> None
      then the (vs_language (the (voice_settings request)))
      else if length (filter (\<lambda>c. (1072 \<le> c \<and> c \<le> 1103) \<or> c = 1105)
                        (py_lower env (strip (req_text request))))
              > length (filter (\<lambda>c. 97 \<le> c \<and> c \<le> 122)
                          (py_lower env (strip (req_text request))))
      then lit ''ru'' else lit ''en'')"
proof -
  from assms(1) have vl: "valid_language (req_language request)"
    by (simp add: valid_request_def)
  have vs: "valid_language (vs_language s)" if "voice_settings request = Some s" for s
    using assms(1) that by (simp add: valid_request_def valid_settings_def)
  have t1: "truthy (req_language request) \<longleftrightarrow> req_language request \<noteq> None"
    by (rule truthy_valid [OF vl])
  have t2: "(case voice_settings request of None \<Rightarrow> False | Some s \<Rightarrow> truthy (vs_language s)) \<longleftrightarrow>
      voice_settings request \<noteq> None \<and> vs_language (the (voice_settings request)) \<noteq> None"
    using vs by (cases "voice_settings request") (simp_all add: truthy_valid)
  show ?thesis
    unfolding synthesis_call_def Let_def choose_language_def detect_language_def t1 t2
      rus_count_range eng_count_range
    using assms(2) by simp
qed

text \<open>
  Claim C2. Take a request that has passed the schema (a language that is set is one of
  "en", "ru", "auto"), a loaded model and a text that does not strip to the empty string,
  so that \<open>generate_speech\<close> gets past its two checks. Then the handler makes one
  \<open>tts_to_file\<close> call: the file system it returns with is the one that call leaves, it
  raises the 500 of that call's exception if the call raises, and it returns a response
  only if the call returns. The language of that call is \<open>request.language\<close> when it is set;
  otherwise \<open>request.voice_settings.language\<close> when that is set; otherwise "ru" when the
  stripped, lowercased text holds strictly more lowercase Cyrillic letters (a to ya, and
  io) than lowercase Latin letters (a to z), and "en" when it does not (a tie included).
  The call's text is the stripped text, its path the output path, and its speaker the one
  chosen for that language.
\<close>

theorem language_choice:
  assumes "valid_request cfg request" and "model_loaded g" and "tts_model g = Some model"
    and "strip (req_text request) \<noteq> []"
  shows "case generate_speech cfg env request g fs of
     (g', fs', sch, r) \<Rightarrow>
       (\<exists>call.
          call_language call =
            (if req_language request \<noteq> None then the (req_language request)
             else if voice_settings request \<noteq> None \<and>
                     vs_language (the (voice_settings request)) \<noteq> None
             then the (vs_language (the (voice_settings request)))
             else if length (filter (\<lambda>c. (1072 \<le> c \<and> c \<le> 1103) \<or> c = 1105)
                               (py_lower env (strip (req_text request))))
                     > length (filter (\<lambda>c. 97 \<le> c \<and> c \<le> 122)
                                 (py_lower env (strip (req_text request))))
             then lit ''ru'' else lit ''en'') \<and>
          call_text call = strip (req_text request) \<and>
          file_path call =
            path_join (AUDIO_OUTPUT_DIR cfg)
              (lit ''tts_'' @ uuid4 env @ lit ''.'' @ format_opt (audio_format request)) \<and>
          call_speaker call = choose_speaker (speakers env model) (call_language call) \<and>
          fs' = snd (tts_to_file env model call fs) \<and>
          (\<forall>msg. fst (tts_to_file env model call fs) = Some msg \<longrightarrow>
             r = Inl (HTTPException 500
                       (lit ''Failed to generate speech: '' @ str_of env (Exception msg)))) \<and>
          ((\<exists>resp. r = Inr resp) \<longrightarrow> fst (tts_to_file env model call fs) = None))"
proof -
  let ?call = "synthesis_call cfg env model request"
  have lang: "call_language ?call =
            (if req_language request \<noteq> None then the (req_language request)
             else if voice_settings request \<noteq> None \<and>
                     vs_language (the (voice_settings request)) \<noteq> None
             then the (vs_language (the (voice_settings request)))
             else if length (filter (\<lambda>c. (1072 \<le> c \<and> c \<le> 1103) \<or> c = 1105)
                               (py_lower env (strip (req_text request))))
                     > length (filter (\<lambda>c. 97 \<le> c \<and> c \<le> 122)
                                 (py_lower env (strip (req_text request))))
             then lit ''ru'' else lit ''en'')"
    by (rule synthesis_language [OF assms(1) assms(4)])
  have ctext: "call_text ?call = strip (req_text request)"
    by (simp add: synthesis_call_def Let_def)
  have path: "file_path ?call =
            path_join (AUDIO_OUTPUT_DIR cfg)
              (lit ''tts_'' @ uuid4 env @ lit ''.'' @ format_opt (audio_format request))"
    by (simp add: synthesis_call_def Let_def output_path_def output_filename_def)
  have spk: "call_speaker ?call = choose_speaker (speakers env model) (call_language ?call)"
    by (simp add: synthesis_call_def Let_def)
  obtain g' fs' sch r where res: "generate_speech cfg env request g fs = (g', fs', sch, r)"
    by (cases "generate_speech cfg env request g fs") auto
  have fs': "fs' = snd (tts_to_file env model ?call fs)"
    using res assms(2-4)
    by (auto simp: generate_speech_def Let_def split: prod.splits option.splits sum.splits)
  have raised: "r = Inl (HTTPException 500
                  (lit ''Failed to generate speech: '' @ str_of env (Exception msg)))"
    if "fst (tts_to_file env model ?call fs) = Some msg" for msg
    using res assms(2-4) that
    by (auto simp: generate_speech_def generation_failed_def Let_def
        split: prod.splits option.splits sum.splits)
  have returned: "fst (tts_to_file env model ?call fs) = None" if "\<exists>resp. r = Inr resp"
    using res assms(2-4) that
    by (auto simp: generate_speech_def Let_def split: prod.splits option.splits sum.splits)
  have "\<exists>call.
          call_language call =
            (if req_language request \<noteq> None then the (req_language request)
             else if voice_settings request \<noteq> None \<and>
                     vs_language (the (voice_settings request)) \<noteq> None
             then the (vs_language (the (voice_settings request)))
             else if length (filter (\<lambda>c. (1072 \<le> c \<and> c \<le> 1103) \<or> c = 1105)
                               (py_lower env (strip (req_text request))))
                     > length (filter (\<lambda>c. 97 \<le> c \<and> c \<le> 122)
                                 (py_lower env (strip (req_text request))))
             then lit ''ru'' else lit ''en'') \<and>
          call_text call = strip (req_text request) \<and>
          file_path call =
            path_join (AUDIO_OUTPUT_DIR cfg)
              (lit ''tts_'' @ uuid4 env @ lit ''.'' @ format_opt (audio_format request)) \<and>
          call_speaker call = choose_speaker (speakers env model) (call_language call) \<and>
          fs' = snd (tts_to_file env model call fs) \<and>
          (\<forall>msg. fst (tts_to_file env model call fs) = Some msg \<longrightarrow>
             r = Inl (HTTPException 500
                       (lit ''Failed to generate speech: '' @ str_of env (Exception msg)))) \<and>
          ((\<exists>resp. r = Inr resp) \<longrightarrow> fst (tts_to_file env model call fs) = None)"
    apply (rule exI [of _ ?call])
    apply (intro conjI)
          apply (rule lang, rule ctext, rule path, rule spk, rule fs')
     apply (intro allI impI, erule raised)
    apply (intro impI, erule returned)
    done
  with res show ?thesis by simp
qed

text \<open>
  In a world where the synthesis writes the language it is called with into the output
  file, the handler leaves this file: "ru" for six Cyrillic letters against two Latin
  ones; "en" for two against two; "en" for a request language "en" on the Cyrillic text;
  "auto" for a request language "auto" over the voice settings' "en"; "ru" for the voice
  settings' "ru" on a Latin text.
\<close>

theorem language_choice_witness:
  "fst (snd (generate_speech default_tts_config echo_tts_env
     example_request
     (tts_globals_with False (Some 9) True) Map.empty)) =
     [lit ''./audio/tts_id2.mp3'' \<mapsto> lit ''ru''] \<and>
   fst (snd (generate_speech default_tts_config echo_tts_env
     (example_request\<lparr>req_text := [1044, 1072, 32, 111, 107]\<rparr>)
     (tts_globals_with False (Some 9) True) Map.empty)) =
     [lit ''./audio/tts_id2.mp3'' \<mapsto> lit ''en''] \<and>
   fst (snd (generate_speech default_tts_config echo_tts_env
     (example_request\<lparr>req_language := Some (lit ''en'')\<rparr>)
     (tts_globals_with False (Some 9) True) Map.empty)) =
     [lit ''./audio/tts_id2.mp3'' \<mapsto> lit ''en''] \<and>
   fst (snd (generate_speech default_tts_config echo_tts_env
     (example_request\<lparr>req_language := Some (lit ''auto''),
        voice_settings := Some (example_settings\<lparr>vs_language := Some (lit ''en'')\<rparr>)\<rparr>)
     (tts_globals_with False (Some 9) True) Map.empty)) =
     [lit ''./audio/tts_id2.mp3'' \<mapsto> lit ''auto''] \<and>
   fst (snd (generate_speech default_tts_config echo_tts_env
     (example_request\<lparr>req_text := lit ''Hello'',
        voice_settings := Some (example_settings\<lparr>vs_language := Some (lit ''ru'')\<rparr>)\<rparr>)
     (tts_globals_with False (Some 9) True) Map.empty)) =
     [lit ''./audio/tts_id2.mp3'' \<mapsto> lit ''ru'']"
proof -
  have g: "model_loaded (tts_globals_with False (Some 9) True)" "tts_model (tts_globals_with False (Some 9) True) = Some 9"
    by (simp_all add: tts_globals_with_def)
  have v1: "valid_request default_tts_config
     example_request"
    by (simp add: tts_example_defs valid_request_def valid_settings_def valid_language_def lit_def)
  have s1: "strip (req_text
     example_request) \<noteq> []"
    by (simp add: tts_example_defs strip_def isspace_def lit_def)
  have e1: "fst (snd (generate_speech default_tts_config echo_tts_env
     example_request
     (tts_globals_with False (Some 9) True) Map.empty)) =
     [lit ''./audio/tts_id2.mp3'' \<mapsto> lit ''ru'']"
    by (simp add: tts_handler_defs tts_example_defs echo_tts_env_def strip_def isspace_def lit_def
        in_russian_chars in_english_chars)
  have v2: "valid_request default_tts_config
     (example_request\<lparr>req_text := [1044, 1072, 32, 111, 107]\<rparr>)"
    by (simp add: tts_example_defs valid_request_def valid_settings_def valid_language_def lit_def)
  have s2: "strip (req_text
     (example_request\<lparr>req_text := [1044, 1072, 32, 111, 107]\<rparr>)) \<noteq> []"
    by (simp add: tts_example_defs strip_def isspace_def lit_def)
  have e2: "fst (snd (generate_speech default_tts_config echo_tts_env
     (example_request\<lparr>req_text := [1044, 1072, 32, 111, 107]\<rparr>)
     (tts_globals_with False (Some 9) True) Map.empty)) =
     [lit ''./audio/tts_id2.mp3'' \<mapsto> lit ''en'']"
    by (simp add: tts_handler_defs tts_example_defs echo_tts_env_def strip_def isspace_def lit_def
        in_russian_chars in_english_chars)
  have v3: "valid_request default_tts_config
     (example_request\<lparr>req_language := Some (lit ''en'')\<rparr>)"
    by (simp add: tts_example_defs valid_request_def valid_settings_def valid_language_def lit_def)
  have s3: "strip (req_text
     (example_request\<lparr>req_language := Some (lit ''en'')\<rparr>)) \<noteq> []"
    by (simp add: tts_example_defs strip_def isspace_def lit_def)
  have e3: "fst (snd (generate_speech default_tts_config echo_tts_env
     (example_request\<lparr>req_language := Some (lit ''en'')\<rparr>)
     (tts_globals_with False (Some 9) True) Map.empty)) =
     [lit ''./audio/tts_id2.mp3'' \<mapsto> lit ''en'']"
    by (simp add: tts_handler_defs tts_example_defs echo_tts_env_def strip_def isspace_def lit_def
        in_russian_chars in_english_chars)
  have v4: "valid_request default_tts_config
     (example_request\<lparr>req_language := Some (lit ''auto''),
        voice_settings := Some (example_settings\<lparr>vs_language := Some (lit ''en'')\<rparr>)\<rparr>)"
    by (simp add: tts_example_defs valid_request_def valid_settings_def valid_language_def lit_def)
  have s4: "strip (req_text
     (example_request\<lparr>req_language := Some (lit ''auto''),
        voice_settings := Some (example_settings\<lparr>vs_language := Some (lit ''en'')\<rparr>)\<rparr>)) \<noteq> []"
    by (simp add: tts_example_defs strip_def isspace_def lit_def)
  have e4: "fst (snd (generate_speech default_tts_config echo_tts_env
     (example_request\<lparr>req_language := Some (lit ''auto''),
        voice_settings := Some (example_settings\<lparr>vs_language := Some (lit ''en'')\<rparr>)\<rparr>)
     (tts_globals_with False (Some 9) True) Map.empty)) =
     [lit ''./audio/tts_id2.mp3'' \<mapsto> lit ''auto'']"
    by (simp add: tts_handler_defs tts_example_defs echo_tts_env_def strip_def isspace_def lit_def
        in_russian_chars in_english_chars)
  have v5: "valid_request default_tts_config
     (example_request\<lparr>req_text := lit ''Hello'',
        voice_settings := Some (example_settings\<lparr>vs_language := Some (lit ''ru'')\<rparr>)\<rparr>)"
    by (simp add: tts_example_defs valid_request_def valid_settings_def valid_language_def lit_def)
  have s5: "strip (req_text
     (example_request\<lparr>req_text := lit ''Hello'',
        voice_settings := Some (example_settings\<lparr>vs_language := Some (lit ''ru'')\<rparr>)\<rparr>)) \<noteq> []"
    by (simp add: tts_example_defs strip_def isspace_def lit_def)
  have e5: "fst (snd (generate_speech default_tts_config echo_tts_env
     (example_request\<lparr>req_text := lit ''Hello'',
        voice_settings := Some (example_settings\<lparr>vs_language := Some (lit ''ru'')\<rparr>)\<rparr>)
     (tts_globals_with False (Some 9) True) Map.empty)) =
     [lit ''./audio/tts_id2.mp3'' \<mapsto> lit ''ru'']"
    by (simp add: tts_handler_defs tts_example_defs echo_tts_env_def strip_def isspace_def lit_def
        in_russian_chars in_english_chars)
  note t1 = language_choice [OF v1 g s1, of echo_tts_env Map.empty]
  note t2 = language_choice [OF v2 g s2, of echo_tts_env Map.empty]
  note t3 = language_choice [OF v3 g s3, of echo_tts_env Map.empty]
  note t4 = language_choice [OF v4 g s4, of echo_tts_env Map.empty]
  note t5 = language_choice [OF v5 g s5, of echo_tts_env Map.empty]
  from t1 t2 t3 t4 t5 e1 e2 e3 e4 e5 show ?thesis by blast
qed

section \<open>C3: temp-file eviction by age\<close>

text \<open>
  The loop, solved: it works through the listing up to the first entry it has to remove
  and cannot. Of the entries before that one it removes the regular files older than the
  threshold; it changes nothing else. It ends with an exception iff there is such an entry.
\<close>

lemma stuck_after_remove:
  "\<not> stuck N now d y \<Longrightarrow> stuck N now (d(y := None)) f = stuck N now d f"
  by (simp add: stuck_def)

lemma evict_loop_result:
  "evict_loop N now listing d =
     ((\<lambda>f. if f \<in> set (takeWhile (\<lambda>x. \<not> stuck N now d x) listing) \<and> expired N now d f
            then None else d f),
      if \<forall>x \<in> set listing. \<not> stuck N now d x then None
      else Some (OSError (hd (dropWhile (\<lambda>x. \<not> stuck N now d x) listing))))"
proof (induction listing arbitrary: d)
  case Nil
  then show ?case by simp
next
  case (Cons y rest)
  show ?case
  proof (cases "stuck N now d y")
    case True
    then show ?thesis
      by (auto simp: stuck_def isfile_def getctime_def os_remove_def split: option.splits)
  next
    case False
    note nostuck = this
    show ?thesis
    proof (cases "expired N now d y")
      case True
      with nostuck obtain st where st: "d y = Some st" "is_regular st"
        "now - ctime st > N" "removable st"
        by (auto simp: expired_def stuck_def split: option.splits)
      then have step: "evict_loop N now (y # rest) d = evict_loop N now rest (d(y := None))"
        by (simp add: isfile_def getctime_def os_remove_def)
      have ex: "expired N now (d(y := None)) f = (f \<noteq> y \<and> expired N now d f)" for f
        by (simp add: expired_def)
      show ?thesis
        unfolding step Cons.IH stuck_after_remove [OF nostuck]
        using nostuck True by (auto simp: ex st)
    next
      case False
      then have step: "evict_loop N now (y # rest) d = evict_loop N now rest d"
        by (auto simp: expired_def isfile_def getctime_def split: option.splits)
      show ?thesis
        unfolding step Cons.IH
        using nostuck False by auto
    qed
  qed
qed


lemma evict_loop_partial:
  "fst (evict_loop N now listing d) f =
     (if f \<in> set (takeWhile (\<lambda>x. \<not> stuck N now d x) listing) \<and> expired N now d f
      then None else d f)"
  by (simp add: evict_loop_result)

lemma expired_iff:
  "expired N now d f \<longleftrightarrow> (\<exists>st. d f = Some st \<and> is_regular st \<and> now - ctime st > N)"
  by (auto simp: expired_def split: option.splits)

lemma evict_loop_complete:
  assumes "set listing = dom d" and "\<forall>x \<in> set listing. \<not> stuck N now d x"
  shows "fst (evict_loop N now listing d) f = (if expired N now d f then None else d f)"
proof -
  from assms(2) have all: "takeWhile (\<lambda>x. \<not> stuck N now d x) listing = listing"
    by simp
  show ?thesis
  proof (cases "f \<in> set listing")
    case True
    then show ?thesis by (simp add: evict_loop_partial all)
  next
    case False
    with assms(1) have "d f = None" by auto
    then show ?thesis by (simp add: evict_loop_partial)
  qed
qed

text \<open>
  Claim C3, as the code has it. \<open>expired N\<close> says: a regular file whose age (current time
  minus creation time) exceeds \<open>N\<close> seconds. Both cleanup tasks (\<open>N = 1800\<close> for the STT
  service, \<open>N = 3600\<close> for the TTS service) only ever delete expired files, and leave every
  other entry (a file at or below the threshold, an entry that is not a regular file) as
  it is. They delete an expired file iff it is listed before the first entry whose
  removal raises: the \<open>try\<close> encloses the whole loop, so the first \<open>os.remove\<close> that raises
  ends the task. Hence, when no removal raises, a file of the directory is deleted iff it
  is expired.
\<close>

theorem eviction_by_age:
  "cleanup_temp_files now listing d f =
     (if f \<in> set (takeWhile (\<lambda>x. \<not> stuck 1800 now d x) listing) \<and> expired 1800 now d f
      then None else d f) \<and>
   cleanup_old_files now listing d f =
     (if f \<in> set (takeWhile (\<lambda>x. \<not> stuck 3600 now d x) listing) \<and> expired 3600 now d f
      then None else d f) \<and>
   (set listing = dom d \<and> (\<forall>x \<in> set listing. \<not> stuck 1800 now d x) \<longrightarrow>
      cleanup_temp_files now listing d f = (if expired 1800 now d f then None else d f)) \<and>
   (set listing = dom d \<and> (\<forall>x \<in> set listing. \<not> stuck 3600 now d x) \<longrightarrow>
      cleanup_old_files now listing d f = (if expired 3600 now d f then None else d f)) \<and>
   (expired 1800 now d f \<longleftrightarrow>
      (\<exists>st. d f = Some st \<and> is_regular st \<and> now - ctime st > 1800)) \<and>
   (expired 3600 now d f \<longleftrightarrow>
      (\<exists>st. d f = Some st \<and> is_regular st \<and> now - ctime st > 3600))"
proof (intro conjI impI)
  show "cleanup_temp_files now listing d f =
     (if f \<in> set (takeWhile (\<lambda>x. \<not> stuck 1800 now d x) listing) \<and> expired 1800 now d f
      then None else d f)"
    by (simp add: cleanup_temp_files_def evict_loop_partial)
  show "cleanup_old_files now listing d f =
     (if f \<in> set (takeWhile (\<lambda>x. \<not> stuck 3600 now d x) listing) \<and> expired 3600 now d f
      then None else d f)"
    by (simp add: cleanup_old_files_def evict_loop_partial)
  show "cleanup_temp_files now listing d f = (if expired 1800 now d f then None else d f)"
    if "set listing = dom d \<and> (\<forall>x \<in> set listing. \<not> stuck 1800 now d x)"
    using that evict_loop_complete [of listing d 1800 now f]
    by (simp add: cleanup_temp_files_def)
  show "cleanup_old_files now listing d f = (if expired 3600 now d f then None else d f)"
    if "set listing = dom d \<and> (\<forall>x \<in> set listing. \<not> stuck 3600 now d x)"
    using that evict_loop_complete [of listing d 3600 now f]
    by (simp add: cleanup_old_files_def)
  show "expired 1800 now d f \<longleftrightarrow>
      (\<exists>st. d f = Some st \<and> is_regular st \<and> now - ctime st > 1800)"
    by (rule expired_iff)
  show "expired 3600 now d f \<longleftrightarrow>
      (\<exists>st. d f = Some st \<and> is_regular st \<and> now - ctime st > 3600)"
    by (rule expired_iff)
qed

text \<open>
  At time 2000 the STT task deletes the file created at time 0, and keeps the file
  created at time 200 (its age is 1800, not more), the file created at time 1000 and the
  subdirectory. At time 3700 the TTS task deletes the file created at time 0 and keeps
  the file created at time 1000 and the subdirectory.
\<close>

theorem eviction_by_age_witness:
  "cleanup_temp_files 2000 example_listing example_dir (lit ''old.wav'') = None \<and>
   cleanup_temp_files 2000 example_listing example_dir (lit ''edge.wav'') =
     example_dir (lit ''edge.wav'') \<and>
   cleanup_temp_files 2000 example_listing example_dir (lit ''new.wav'') =
     example_dir (lit ''new.wav'') \<and>
   cleanup_temp_files 2000 example_listing example_dir (lit ''sub'') =
     example_dir (lit ''sub'') \<and>
   cleanup_old_files 3700 example_listing example_dir (lit ''old.wav'') = None \<and>
   cleanup_old_files 3700 example_listing example_dir (lit ''new.wav'') =
     example_dir (lit ''new.wav'') \<and>
   cleanup_old_files 3700 example_listing example_dir (lit ''sub'') =
     example_dir (lit ''sub'')"
  using eviction_by_age [of 2000 example_listing example_dir "lit ''old.wav''"]
    eviction_by_age [of 2000 example_listing example_dir "lit ''edge.wav''"]
    eviction_by_age [of 2000 example_listing example_dir "lit ''new.wav''"]
    eviction_by_age [of 2000 example_listing example_dir "lit ''sub''"]
    eviction_by_age [of 3700 example_listing example_dir "lit ''old.wav''"]
    eviction_by_age [of 3700 example_listing example_dir "lit ''new.wav''"]
    eviction_by_age [of 3700 example_listing example_dir "lit ''sub''"]
  by (simp add: example_dir_def example_listing_def stuck_def expired_def lit_def)

text \<open>
  The claim as worded (every regular file older than the threshold is deleted) fails when
  a removal raises: in a directory of two expired files of which the first cannot be
  removed, the second, a regular file older than the threshold, is still there after
  the task, in either service.
\<close>

theorem eviction_stops_at_failure:
  "isfile locked_dir (lit ''b.wav'') \<and>
   2000 - ctime (the (locked_dir (lit ''b.wav''))) > 1800 \<and>
   cleanup_temp_files 2000 [lit ''a.wav'', lit ''b.wav''] locked_dir (lit ''b.wav'') =
     Some \<lparr>is_regular = True, ctime = 0, removable = True\<rparr> \<and>
   4000 - ctime (the (locked_dir (lit ''b.wav''))) > 3600 \<and>
   cleanup_old_files 4000 [lit ''a.wav'', lit ''b.wav''] locked_dir (lit ''b.wav'') =
     Some \<lparr>is_regular = True, ctime = 0, removable = True\<rparr>"
  by (simp add: cleanup_temp_files_def cleanup_old_files_def locked_dir_def isfile_def
      getctime_def os_remove_def lit_def)

section \<open>C4: the audio conversion and its fallback\<close>

text \<open>
  Claim C4. \<open>convert_audio_format\<close> always returns a boolean and never raises. Its first
  library call is the ffmpeg run. When that run returns, the function returns \<open>True\<close>
  and makes no other call. \<open>librosa.load\<close> is called exactly when the ffmpeg run raises,
  right after it; the function then returns \<open>True\<close> when \<open>librosa.load\<close> and \<open>sf.write\<close>
  both return and \<open>False\<close> when one of them raises. So it returns \<open>True\<close> iff ffmpeg or the
  fallback succeeds, and \<open>False\<close> iff both fail.
\<close>

theorem convert_fallback:
  "(\<exists>fs' calls b. convert_audio_format env inp outp sr fs = (fs', calls, Inr b) \<and>
        hd calls = Ffmpeg \<and>
        (LibrosaLoad \<in> set calls \<longleftrightarrow> fst (ffmpeg_run env inp outp sr fs) \<noteq> None) \<and>
        (b \<longleftrightarrow> fst (ffmpeg_run env inp outp sr fs) = None \<or>
               fallback_succeeds env inp outp sr (snd (ffmpeg_run env inp outp sr fs)))) \<and>
   (fst (ffmpeg_run env inp outp sr fs) = None \<longrightarrow>
      convert_audio_format env inp outp sr fs =
        (snd (ffmpeg_run env inp outp sr fs), [Ffmpeg], Inr True)) \<and>
   (fst (ffmpeg_run env inp outp sr fs) \<noteq> None \<longrightarrow>
      take 2 (fst (snd (convert_audio_format env inp outp sr fs))) = [Ffmpeg, LibrosaLoad] \<and>
      snd (snd (convert_audio_format env inp outp sr fs)) =
        Inr (fallback_succeeds env inp outp sr (snd (ffmpeg_run env inp outp sr fs))))"
  by (cases "ffmpeg_run env inp outp sr fs")
     (auto simp: convert_audio_format_def fallback_succeeds_def
        split: option.splits sum.splits prod.splits)

text \<open>
  Three worlds: ffmpeg works (one call, \<open>True\<close>); ffmpeg is missing and librosa works
  (three calls, \<open>True\<close>); ffmpeg is missing and librosa cannot decode (two calls, \<open>False\<close>).
\<close>

theorem convert_fallback_witness:
  "convert_audio_format example_stt_env (lit ''in.mp3'') (lit ''out.wav'') 16000 Map.empty =
     ([lit ''out.wav'' \<mapsto> [0]], [Ffmpeg], Inr True) \<and>
   convert_audio_format no_ffmpeg_env (lit ''in.mp3'') (lit ''out.wav'') 16000 Map.empty =
     ([lit ''out.wav'' \<mapsto> [0]], [Ffmpeg, LibrosaLoad, SfWrite], Inr True) \<and>
   convert_audio_format no_converter_env (lit ''in.mp3'') (lit ''out.wav'') 16000 Map.empty =
     (Map.empty, [Ffmpeg, LibrosaLoad], Inr False)"
  using convert_fallback [of example_stt_env "lit ''in.mp3''" "lit ''out.wav''" 16000 Map.empty]
    convert_fallback [of no_ffmpeg_env "lit ''in.mp3''" "lit ''out.wav''" 16000 Map.empty]
    convert_fallback [of no_converter_env "lit ''in.mp3''" "lit ''out.wav''" 16000 Map.empty]
  by (simp add: convert_audio_format_def example_stt_env_def no_ffmpeg_env_def
      no_converter_env_def)

section \<open>C5: lazy, one-time model loading\<close>





section \<open>C6: the response of \<open>/transcribe\<close>\<close>

text \<open>
  \<open>strip\<close> removes leading and trailing whitespace and nothing else: the string is the
  stripped string between two runs of whitespace, and a non-empty stripped string neither
  starts nor ends with whitespace.
\<close>

lemma strip_decomposition:
  "\<exists>pre post. s = pre @ strip s @ post \<and> (\<forall>c \<in> set pre. isspace c) \<and>
     (\<forall>c \<in> set post. isspace c) \<and>
     (strip s \<noteq> [] \<longrightarrow> \<not> isspace (hd (strip s)) \<and> \<not> isspace (last (strip s)))"
proof -
  let ?a = "takeWhile isspace s"
  let ?m = "dropWhile isspace s"
  let ?b = "rev (takeWhile isspace (rev ?m))"
  have s: "s = ?a @ ?m" by simp
  have "rev (dropWhile isspace (rev ?m)) @ rev (takeWhile isspace (rev ?m)) = rev (rev ?m)"
    by (simp only: rev_append [symmetric] takeWhile_dropWhile_id)
  then have m: "?m = strip s @ ?b" by (simp add: strip_def)
  have a: "\<forall>c \<in> set ?a. isspace c" by (auto dest: set_takeWhileD)
  have b: "\<forall>c \<in> set ?b. isspace c" by (auto dest: set_takeWhileD)
  have l: "\<not> isspace (last (strip s))" if "strip s \<noteq> []"
  proof -
    from that have ne: "dropWhile isspace (rev ?m) \<noteq> []" by (simp add: strip_def)
    then have "\<not> isspace (hd (dropWhile isspace (rev ?m)))" by (rule hd_dropWhile)
    with ne show ?thesis by (simp add: strip_def last_rev)
  qed
  have h: "\<not> isspace (hd (strip s))" if "strip s \<noteq> []"
  proof -
    from that m have "?m \<noteq> []" by (metis append_is_Nil_conv)
    then have "\<not> isspace (hd ?m)" by (rule hd_dropWhile)
    moreover from m that have "hd ?m = hd (strip s)" by (metis hd_append2)
    ultimately show ?thesis by simp
  qed
  from s m have "s = ?a @ strip s @ ?b" by simp
  with a b h l show ?thesis by blast
qed

lemma load_returns_cached:
  "load_whisper_model cfg env g = Some (g', Inr m, n) \<Longrightarrow> whisper_model g' = m"
  by (auto simp: load_whisper_model_def Let_def split: if_splits option.splits sum.splits)

lemma choose_audio_path_cases:
  "choose_audio_path env audio inp outp fs = (p, fs') \<Longrightarrow> p = inp \<or> p = outp"
  by (auto simp: choose_audio_path_def split: option.splits if_splits prod.splits sum.splits bool.splits)

lemma body_success:
  assumes "transcribe_body cfg env audio g fs = Some (g', fs', sch, Inr resp)"
  shows "\<exists>model path fs0 result.
           whisper_model g' = Some model \<and>
           (path = temp_input_path cfg (uuid4 env) audio \<or>
            path = temp_output_path cfg (uuid4 env)) \<and>
           transcribe env model path fs0 = Inr result \<and>
           make_response env result = Inr resp"
  using assms
  by (auto simp: transcribe_body_def Let_def
      dest!: load_returns_cached choose_audio_path_cases
      split: if_splits option.splits sum.splits prod.splits)

lemma make_response_fields:
  assumes "make_response env result = Inr resp"
  shows "\<exists>t. result (lit ''text'') = Some (PStr t) \<and>
           transcription resp = strip t \<and>
           validate_str (dict_get result (lit ''language'') (PStr (lit ''unknown''))) =
             Some (language resp) \<and>
           validate_float (parse_float env) (dict_get result (lit ''duration'') (PNum 0)) =
             Some (duration resp) \<and>
           processing_time resp = elapsed_seconds env"
  using assms
  by (auto simp: make_response_def Let_def split: option.splits pyval.splits)

lemma validate_str_Some: "validate_str v = Some s \<longleftrightarrow> v = PStr s"
  by (cases v) auto

text \<open>
  Claim C6. A call of \<open>transcribe_audio\<close> that returns a response returns a
  \<open>TranscriptionResponse\<close>, a record of exactly the four fields \<open>transcription\<close>,
  \<open>language\<close>, \<open>duration\<close> and \<open>processing_time\<close>. There is a result of
  \<open>model.transcribe\<close>, called with the loaded model on the input or the converted file,
  such that: the result has a string under \<open>text\<close> and \<open>transcription\<close> is that string
  stripped; \<open>language\<close> is the result's \<open>language\<close>, or "unknown" when the result has no
  such key; \<open>duration\<close> is the result's \<open>duration\<close> (as the float field reads it, a number
  being read as itself), or 0 when the result has no such key; \<open>processing_time\<close> is the
  time measured.
\<close>

theorem transcription_response_fields:
  "transcribe_audio cfg env audio g fs = Some r \<and> outcome r = Inr resp \<longrightarrow>
     (\<exists>model path fs0 result t.
        whisper_model (globals_after r) = Some model \<and>
        (path = temp_input_path cfg (uuid4 env) audio \<or>
         path = temp_output_path cfg (uuid4 env)) \<and>
        transcribe env model path fs0 = Inr result \<and>
        result (lit ''text'') = Some (PStr t) \<and>
        transcription resp = strip t \<and>
        (result (lit ''language'') = None \<longrightarrow> language resp = lit ''unknown'') \<and>
        (\<forall>v. result (lit ''language'') = Some v \<longrightarrow> v = PStr (language resp)) \<and>
        (result (lit ''duration'') = None \<longrightarrow> duration resp = 0) \<and>
        (\<forall>x. result (lit ''duration'') = Some (PNum x) \<longrightarrow> duration resp = x) \<and>
        (\<forall>v. result (lit ''duration'') = Some v \<longrightarrow>
             validate_float (parse_float env) v = Some (duration resp)) \<and>
        processing_time resp = elapsed_seconds env \<and>
        resp = \<lparr>transcription = strip t, language = language resp,
                duration = duration resp, processing_time = elapsed_seconds env\<rparr>)"
proof
  assume a: "transcribe_audio cfg env audio g fs = Some r \<and> outcome r = Inr resp"
  then have ret: "transcribe_audio cfg env audio g fs = Some r" and out: "outcome r = Inr resp"
    by simp_all
  have low: "current_requests g < MAX_CONCURRENT_REQUESTS cfg"
  proof (rule ccontr)
    assume "\<not> current_requests g < MAX_CONCURRENT_REQUESTS cfg"
    then have "MAX_CONCURRENT_REQUESTS cfg \<le> current_requests g" by simp
    from rejected_result [OF this, of env audio fs] ret out show False by auto
  qed
  from admitted_result [OF low ret] obtain g2 fs2 sch res where
    body: "transcribe_body cfg env audio (g\<lparr>current_requests := current_requests g + 1\<rparr>) fs =
           Some (g2, fs2, sch, res)" and
    ga: "globals_after r = g2\<lparr>current_requests := current_requests g\<rparr>" and
    o: "outcome r = (case res of Inl e \<Rightarrow> Inl (reraise env e) | Inr resp \<Rightarrow> Inr resp)"
    by auto
  from o out have res: "res = Inr resp" by (cases res) auto
  from body_success [OF body [unfolded res]] obtain model path fs0 result where
    m: "whisper_model g2 = Some model" and
    p: "path = temp_input_path cfg (uuid4 env) audio \<or> path = temp_output_path cfg (uuid4 env)" and
    tr: "transcribe env model path fs0 = Inr result" and
    mk: "make_response env result = Inr resp"
    by blast
  from make_response_fields [OF mk] obtain t where
    t: "result (lit ''text'') = Some (PStr t)" and
    tt: "transcription resp = strip t" and
    l: "validate_str (dict_get result (lit ''language'') (PStr (lit ''unknown''))) =
          Some (language resp)" and
    d: "validate_float (parse_float env) (dict_get result (lit ''duration'') (PNum 0)) =
          Some (duration resp)" and
    pt: "processing_time resp = elapsed_seconds env"
    by blast
  have l1: "result (lit ''language'') = None \<longrightarrow> language resp = lit ''unknown''"
    using l by (auto simp: dict_get_def)
  have l2: "\<forall>v. result (lit ''language'') = Some v \<longrightarrow> v = PStr (language resp)"
    using l by (auto simp: dict_get_def validate_str_Some)
  have d1: "result (lit ''duration'') = None \<longrightarrow> duration resp = 0"
    using d by (auto simp: dict_get_def)
  have d2: "\<forall>x. result (lit ''duration'') = Some (PNum x) \<longrightarrow> duration resp = x"
    using d by (auto simp: dict_get_def)
  have d3: "\<forall>v. result (lit ''duration'') = Some v \<longrightarrow>
             validate_float (parse_float env) v = Some (duration resp)"
    using d by (auto simp: dict_get_def)
  have eq: "resp = \<lparr>transcription = strip t, language = language resp,
                duration = duration resp, processing_time = elapsed_seconds env\<rparr>"
    using tt pt by (cases resp) simp
  from m ga have m': "whisper_model (globals_after r) = Some model" by simp
  show "\<exists>model path fs0 result t.
        whisper_model (globals_after r) = Some model \<and>
        (path = temp_input_path cfg (uuid4 env) audio \<or>
         path = temp_output_path cfg (uuid4 env)) \<and>
        transcribe env model path fs0 = Inr result \<and>
        result (lit ''text'') = Some (PStr t) \<and>
        transcription resp = strip t \<and>
        (result (lit ''language'') = None \<longrightarrow> language resp = lit ''unknown'') \<and>
        (\<forall>v. result (lit ''language'') = Some v \<longrightarrow> v = PStr (language resp)) \<and>
        (result (lit ''duration'') = None \<longrightarrow> duration resp = 0) \<and>
        (\<forall>x. result (lit ''duration'') = Some (PNum x) \<longrightarrow> duration resp = x) \<and>
        (\<forall>v. result (lit ''duration'') = Some v \<longrightarrow>
             validate_float (parse_float env) v = Some (duration resp)) \<and>
        processing_time resp = elapsed_seconds env \<and>
        resp = \<lparr>transcription = strip t, language = language resp,
                duration = duration resp, processing_time = elapsed_seconds env\<rparr>"
    apply (rule exI [of _ model], rule exI [of _ path], rule exI [of _ fs0])
    apply (rule exI [of _ result], rule exI [of _ t])
    apply (intro conjI)
    apply (rule m', rule p, rule tr, rule t, rule tt, rule l1, rule l2, rule d1, rule d2)
    apply (rule d3, rule pt, rule eq)
    done
qed

text \<open>
  A model result with the text "so it goes" between blanks, a duration of 2.5 and no
  language gives the stripped text, "unknown" and 2.5; the result with the language "en"
  and no duration gives "en" and 0.
\<close>

theorem transcription_response_fields_witness:
  "(let r = the (transcribe_audio default_stt_config
               (example_stt_env\<lparr>transcribe := (\<lambda>model p fs. Inr timed_result)\<rparr>)
               example_upload (stt_globals_with None 0) Map.empty)
    in outcome r = Inr \<lparr>transcription = lit ''so it goes'', language = lit ''unknown'',
                         duration = 5 / 2, processing_time = 3 / 2\<rparr>) \<and>
   transcribe_audio default_stt_config
     (example_stt_env\<lparr>transcribe := (\<lambda>model p fs. Inr timed_result)\<rparr>)
     example_upload (stt_globals_with None 0) Map.empty \<noteq> None \<and>
   map_option outcome (transcribe_audio default_stt_config example_stt_env example_upload
     (stt_globals_with None 0) Map.empty) =
     Some (Inr \<lparr>transcription = lit ''hi'', language = lit ''en'', duration = 0,
                processing_time = 3 / 2\<rparr>)"
  using transcription_response_fields [of default_stt_config
      "example_stt_env\<lparr>transcribe := (\<lambda>model p fs. Inr timed_result)\<rparr>"
      example_upload "stt_globals_with None 0" Map.empty]
  by (simp add: stt_handler_defs stt_example_defs timed_result_def)

section \<open>C7: the response of \<open>/generate-speech\<close>\<close>

lemma endswith_append: "endswith (xs @ suffix) suffix"
  by (simp add: endswith_def)

lemma lit_append: "lit (a @ b) = lit a @ lit b"
  by (simp add: lit_def)

text \<open>
  Claim C7. When \<open>generate_speech\<close> returns a response, its \<open>status\<close> is "success"; its
  \<open>audio_url\<close> is "/audio/" followed by the file name \<open>tts_<uuid>.<audio_format>\<close> that the
  handler generated, so that for a requested format the URL ends in a dot and that format;
  and the file of that name in \<open>AUDIO_OUTPUT_DIR\<close> exists in the file system the handler
  leaves behind, \<open>file_size\<close> being its size there.
\<close>

theorem speech_response_fields:
  "generate_speech cfg env request g fs = (g', fs', sch, Inr resp) \<longrightarrow>
     status resp = lit ''success'' \<and>
     audio_url resp =
       lit ''/audio/'' @ lit ''tts_'' @ uuid4 env @ lit ''.'' @ format_opt (audio_format request) \<and>
     (\<forall>fmt. audio_format request = Some fmt \<longrightarrow>
        audio_url resp = lit ''/audio/tts_'' @ uuid4 env @ lit ''.'' @ fmt \<and>
        endswith (audio_url resp) (lit ''.'' @ fmt)) \<and>
     (\<exists>bytes.
        fs' (path_join (AUDIO_OUTPUT_DIR cfg)
               (lit ''tts_'' @ uuid4 env @ lit ''.'' @ format_opt (audio_format request))) =
          Some bytes \<and>
        file_size resp = length bytes)"
proof
  assume a: "generate_speech cfg env request g fs = (g', fs', sch, Inr resp)"
  let ?name = "lit ''tts_'' @ uuid4 env @ lit ''.'' @ format_opt (audio_format request)"
  let ?path = "path_join (AUDIO_OUTPUT_DIR cfg) ?name"
  from a obtain n where
    size: "getsize fs' ?path = Inr n" and
    resp: "resp = \<lparr>audio_url = lit ''/audio/'' @ ?name,
                   tts_duration = Some (real (length (py_split (strip (req_text request)))) / 150 * 60),
                   file_size = n, status = lit ''success'',
                   message = lit ''Speech generated successfully''\<rparr>"
    by (auto simp: generate_speech_def synthesis_call_def output_path_def output_filename_def
        Let_def split: if_splits prod.splits option.splits sum.splits)
  from size obtain bytes where b: "fs' ?path = Some bytes" "n = length bytes"
    by (auto simp: getsize_def split: option.splits)
  have url: "audio_url resp = lit ''/audio/'' @ ?name" by (simp add: resp)
  have fmt: "audio_url resp = lit ''/audio/tts_'' @ uuid4 env @ lit ''.'' @ fmt \<and>
        endswith (audio_url resp) (lit ''.'' @ fmt)"
    if "audio_format request = Some fmt" for fmt
  proof -
    have "audio_url resp = (lit ''/audio/tts_'' @ uuid4 env) @ (lit ''.'' @ fmt)"
      using that by (simp add: url lit_def)
    then show ?thesis using endswith_append [of "lit ''/audio/tts_'' @ uuid4 env" "lit ''.'' @ fmt"]
      by simp
  qed
  show "status resp = lit ''success'' \<and>
     audio_url resp = lit ''/audio/'' @ ?name \<and>
     (\<forall>fmt. audio_format request = Some fmt \<longrightarrow>
        audio_url resp = lit ''/audio/tts_'' @ uuid4 env @ lit ''.'' @ fmt \<and>
        endswith (audio_url resp) (lit ''.'' @ fmt)) \<and>
     (\<exists>bytes. fs' ?path = Some bytes \<and> file_size resp = length bytes)"
  proof (intro conjI allI impI)
    show "status resp = lit ''success''" by (simp add: resp)
    show "audio_url resp = lit ''/audio/'' @ ?name" by (rule url)
    show "audio_url resp = lit ''/audio/tts_'' @ uuid4 env @ lit ''.'' @ fmt"
      if "audio_format request = Some fmt" for fmt
      by (rule fmt [OF that, THEN conjunct1])
    show "endswith (audio_url resp) (lit ''.'' @ fmt)"
      if "audio_format request = Some fmt" for fmt
      by (rule fmt [OF that, THEN conjunct2])
    show "\<exists>bytes. fs' ?path = Some bytes \<and> file_size resp = length bytes"
      using b by (simp add: resp)
  qed
qed

text \<open>
  A request for mp3 with the uuid "id2" and a synthesis that writes four bytes: the URL is
  "/audio/tts_id2.mp3", the file "./audio/tts_id2.mp3" holds four bytes and \<open>file_size\<close>
  is 4.
\<close>

theorem speech_response_fields_witness:
  "generate_speech default_tts_config example_tts_env example_request
     (tts_globals_with False (Some 9) True) Map.empty =
   (tts_globals_with False (Some 9) True,
    [lit ''./audio/tts_id2.mp3'' \<mapsto> [82, 73, 70, 70]],
    True,
    Inr \<lparr>audio_url = lit ''/audio/tts_id2.mp3'', tts_duration = Some (4 / 5), file_size = 4,
         status = lit ''success'', message = lit ''Speech generated successfully''\<rparr>)"
  using speech_response_fields [of default_tts_config example_tts_env example_request
      "tts_globals_with False (Some 9) True" Map.empty]
  by (simp add: tts_handler_defs tts_example_defs strip_def isspace_def lit_def)

section \<open>C8: \<open>current_requests\<close> is balanced\<close>

lemma call_keeps_counter:
  assumes "transcribe_audio cfg env audio g fs = Some r"
  shows "current_requests (globals_after r) = current_requests g"
proof (cases "current_requests g < MAX_CONCURRENT_REQUESTS cfg")
  case True
  from admitted_result [OF True assms] show ?thesis by auto
next
  case False
  then have "MAX_CONCURRENT_REQUESTS cfg \<le> current_requests g" by simp
  from rejected_result [OF this, of env audio fs] assms show ?thesis by auto
qed

lemma call_writes_bounded:
  assumes "transcribe_audio cfg env audio g fs = Some r"
  shows "\<forall>v \<in> set (counter_writes r). v \<le> MAX_CONCURRENT_REQUESTS cfg"
proof (cases "current_requests g < MAX_CONCURRENT_REQUESTS cfg")
  case True
  from admitted_result [OF True assms] True show ?thesis by auto
next
  case False
  then have "MAX_CONCURRENT_REQUESTS cfg \<le> current_requests g" by simp
  from rejected_result [OF this, of env audio fs] assms show ?thesis by auto
qed

lemma serve_keeps_counter:
  "serve_sequentially cfg reqs g fs = Some (g', fs', ws) \<Longrightarrow>
   current_requests g' = current_requests g"
proof (induction reqs arbitrary: g fs ws g' fs')
  case Nil
  then show ?case by simp
next
  case (Cons a reqs)
  obtain env audio where a: "a = (env, audio)" by (cases a)
  from Cons.prems a obtain r fs1 ws1 where
    r: "transcribe_audio cfg env audio g fs = Some r" and
    rest: "serve_sequentially cfg reqs (globals_after r) (fs_after r) = Some (g', fs1, ws1)"
    by (auto split: option.splits)
  from Cons.IH [OF rest] call_keeps_counter [OF r] show ?case by simp
qed

lemma serve_writes_bounded:
  "serve_sequentially cfg reqs g fs = Some (g', fs', ws) \<Longrightarrow>
   \<forall>v \<in> set ws. v \<le> MAX_CONCURRENT_REQUESTS cfg"
proof (induction reqs arbitrary: g fs ws g' fs')
  case Nil
  then show ?case by simp
next
  case (Cons a reqs)
  obtain env audio where a: "a = (env, audio)" by (cases a)
  from Cons.prems a obtain r g1 fs1 ws1 where
    r: "transcribe_audio cfg env audio g fs = Some r" and
    rest: "serve_sequentially cfg reqs (globals_after r) (fs_after r) = Some (g1, fs1, ws1)" and
    eq: "ws = counter_writes r @ ws1"
    by (auto split: option.splits)
  from Cons.IH [OF rest] call_writes_bounded [OF r] eq
  show ?case by auto
qed

text \<open>
  Claim C8. For every call of \<open>transcribe_audio\<close> that returns, whatever its outcome (a
  response, an \<open>HTTPException\<close> raised in the \<open>try\<close>, or any other exception, turned into a
  500): an admitted call writes \<open>current_requests\<close> exactly twice, first the value it found
  plus one, then the value it found again; a call rejected by the gate writes nothing; so the
  counter after the call equals the counter before it. No call ever sets the counter to a
  value above \<open>MAX_CONCURRENT_REQUESTS\<close>. The same holds for any number of requests served
  one after the other: the counter ends where it started (at 0, its initial value of line
  41), and no value written on the way exceeds the threshold; so a counter that starts at
  or below the threshold stays there.
\<close>

theorem counter_balanced:
  "(\<forall>r. transcribe_audio cfg env audio g fs = Some r \<longrightarrow>
      (current_requests g < MAX_CONCURRENT_REQUESTS cfg \<longrightarrow>
         counter_writes r = [current_requests g + 1, current_requests g]) \<and>
      (MAX_CONCURRENT_REQUESTS cfg \<le> current_requests g \<longrightarrow> counter_writes r = []) \<and>
      current_requests (globals_after r) = current_requests g \<and>
      (\<forall>v \<in> set (counter_writes r). v \<le> MAX_CONCURRENT_REQUESTS cfg)) \<and>
   (\<forall>g' fs' ws. serve_sequentially cfg reqs g fs = Some (g', fs', ws) \<longrightarrow>
      current_requests g' = current_requests g \<and>
      (\<forall>v \<in> set ws. v \<le> MAX_CONCURRENT_REQUESTS cfg) \<and>
      (current_requests g \<le> MAX_CONCURRENT_REQUESTS cfg \<longrightarrow>
         (\<forall>v \<in> set (current_requests g # ws @ [current_requests g']).
            v \<le> MAX_CONCURRENT_REQUESTS cfg)))"
proof (intro conjI allI impI)
  fix r assume r: "transcribe_audio cfg env audio g fs = Some r"
  show "counter_writes r = [current_requests g + 1, current_requests g]"
    if "current_requests g < MAX_CONCURRENT_REQUESTS cfg"
    using admitted_result [OF that r] by auto
  show "counter_writes r = []" if "MAX_CONCURRENT_REQUESTS cfg \<le> current_requests g"
    using rejected_result [OF that, of env audio fs] r by auto
  show "current_requests (globals_after r) = current_requests g"
    by (rule call_keeps_counter [OF r])
  show "\<forall>v \<in> set (counter_writes r). v \<le> MAX_CONCURRENT_REQUESTS cfg"
    by (rule call_writes_bounded [OF r])
next
  fix g' fs' ws assume s: "serve_sequentially cfg reqs g fs = Some (g', fs', ws)"
  show "current_requests g' = current_requests g"
    by (rule serve_keeps_counter [OF s])
  show "\<forall>v \<in> set ws. v \<le> MAX_CONCURRENT_REQUESTS cfg"
    by (rule serve_writes_bounded [OF s])
  show "\<forall>v \<in> set (current_requests g # ws @ [current_requests g']).
            v \<le> MAX_CONCURRENT_REQUESTS cfg"
    if "current_requests g \<le> MAX_CONCURRENT_REQUESTS cfg"
    using that serve_keeps_counter [OF s] serve_writes_bounded [OF s] by auto
qed

text \<open>
  With the defaults, from the counter 0: a request that succeeds, one rejected with 413
  inside the \<open>try\<close> and one whose transcription raises (a 500) each write 1 and then 0; a
  request that finds the counter at 5 writes nothing; two requests in a row write
  1, 0, 1, 0.
\<close>

theorem counter_balanced_witness:
  "map_option (\<lambda>r. (outcome r, counter_writes r, current_requests (globals_after r)))
     (transcribe_audio default_stt_config example_stt_env example_upload
        (stt_globals_with None 0) Map.empty) =
     Some (Inr \<lparr>transcription = lit ''hi'', language = lit ''en'', duration = 0,
                processing_time = 3 / 2\<rparr>, [1, 0], 0) \<and>
   map_option (\<lambda>r. (outcome r, counter_writes r, current_requests (globals_after r)))
     (transcribe_audio default_stt_config example_stt_env
        (example_upload\<lparr>upload_size := Some 52428801\<rparr>) (stt_globals_with None 0) Map.empty) =
     Some (Inl (HTTPException 413 (lit ''Audio file too medium'')), [1, 0], 0) \<and>
   map_option (\<lambda>r. (outcome r, counter_writes r, current_requests (globals_after r)))
     (transcribe_audio default_stt_config
        (example_stt_env\<lparr>transcribe := (\<lambda>model p fs. Inl (lit ''boom''))\<rparr>)
        example_upload (stt_globals_with None 0) Map.empty) =
     Some (Inl (HTTPException 500 (lit ''Transcription failed: boom'')), [1, 0], 0) \<and>
   map_option (\<lambda>r. (counter_writes r, current_requests (globals_after r)))
     (transcribe_audio default_stt_config example_stt_env example_upload
        (stt_globals_with None 5) Map.empty) = Some ([], 5) \<and>
   map_option (\<lambda>(g, fs, ws). (current_requests g, ws))
     (serve_sequentially default_stt_config
        [(example_stt_env, example_upload), (example_stt_env, example_upload)]
        (stt_globals_with None 0) Map.empty) = Some (0, [1, 0, 1, 0])"
  using counter_balanced [of default_stt_config example_stt_env example_upload
      "stt_globals_with None 0" Map.empty
      "[(example_stt_env, example_upload), (example_stt_env, example_upload)]"]
  by (simp add: stt_handler_defs stt_example_defs)

section \<open>C9: the upload size limit\<close>

lemma body_413:
  assumes "transcribe_body cfg env audio g fs = Some (g', fs', sch, Inl (HTTPException 413 detail))"
  shows "(\<exists>n. upload_size audio = Some n \<and> n \<noteq> 0 \<and> MAX_AUDIO_SIZE cfg < n) \<and>
         g' = g \<and> fs' = fs \<and> \<not> sch"
  using assms
  by (auto simp: transcribe_body_def Let_def
      dest: load_raises_plain save_raises_plain response_raises_plain
      split: if_splits option.splits sum.splits prod.splits)

text \<open>
  Claim C9, as the code has it. Write "oversize" for: \<open>audio.size\<close> is present, nonzero
  and strictly greater than \<open>MAX_AUDIO_SIZE\<close>. The check of line 159 is the first statement
  of the \<open>try\<close> and stands behind the admission gate of lines 151-152. A call that passes
  the gate raises HTTP 413 iff the upload is oversize, and then the file system is
  untouched (no temp file was written) and the globals are as before. A call that raises
  413 has passed the gate and had an oversize upload, whatever else happens. The bytes of
  the upload play no part: with the reported size missing or zero no payload makes the
  handler raise 413. A call stopped by the gate raises 429, whatever size it reports.
\<close>

theorem size_limit:
  "(current_requests g < MAX_CONCURRENT_REQUESTS cfg \<and>
    (\<exists>n. upload_size audio = Some n \<and> n \<noteq> 0 \<and> MAX_AUDIO_SIZE cfg < n) \<longrightarrow>
      transcribe_audio cfg env audio g fs =
        Some \<lparr>globals_after = g, fs_after = fs,
              counter_writes = [current_requests g + 1, current_requests g],
              cleanup_scheduled = False,
              outcome = Inl (HTTPException 413 (lit ''Audio file too medium''))\<rparr>) \<and>
   (\<forall>r detail. transcribe_audio cfg env audio g fs = Some r \<and>
        outcome r = Inl (HTTPException 413 detail) \<longrightarrow>
      (\<exists>n. upload_size audio = Some n \<and> n \<noteq> 0 \<and> MAX_AUDIO_SIZE cfg < n) \<and>
      current_requests g < MAX_CONCURRENT_REQUESTS cfg \<and> fs_after r = fs) \<and>
   (upload_size audio = None \<or> upload_size audio = Some 0 \<longrightarrow>
      (\<forall>bytes r detail.
         transcribe_audio cfg env (audio\<lparr>payload := bytes\<rparr>) g fs = Some r \<longrightarrow>
         outcome r \<noteq> Inl (HTTPException 413 detail))) \<and>
   (MAX_CONCURRENT_REQUESTS cfg \<le> current_requests g \<longrightarrow>
      transcribe_audio cfg env audio g fs =
        Some \<lparr>globals_after = g, fs_after = fs, counter_writes = [],
              cleanup_scheduled = False,
              outcome = Inl (HTTPException 429 (lit ''Too many concurrent requests''))\<rparr>)"
proof -
  have only_if: "(\<exists>n. upload_size a = Some n \<and> n \<noteq> 0 \<and> MAX_AUDIO_SIZE cfg < n) \<and>
      current_requests g < MAX_CONCURRENT_REQUESTS cfg \<and> fs_after r = fs"
    if ret: "transcribe_audio cfg env a g fs = Some r"
      and out: "outcome r = Inl (HTTPException 413 detail)" for a r detail
  proof (cases "current_requests g < MAX_CONCURRENT_REQUESTS cfg")
    case False
    then have "MAX_CONCURRENT_REQUESTS cfg \<le> current_requests g" by simp
    from rejected_result [OF this, of env a fs] ret out show ?thesis by auto
  next
    case True
    from admitted_result [OF True ret] obtain g2 fs2 sch res where
      body: "transcribe_body cfg env a (g\<lparr>current_requests := current_requests g + 1\<rparr>) fs =
             Some (g2, fs2, sch, res)" and
      fs: "fs_after r = fs2" and
      o: "outcome r = (case res of Inl e \<Rightarrow> Inl (reraise env e) | Inr resp \<Rightarrow> Inr resp)"
      by auto
    from o out obtain e where res: "res = Inl e" and e: "reraise env e = HTTPException 413 detail"
      by (cases res) auto
    from body res have body':
      "transcribe_body cfg env a (g\<lparr>current_requests := current_requests g + 1\<rparr>) fs =
       Some (g2, fs2, sch, Inl e)" by simp
    from body_raises [OF body'] e have "e = HTTPException 413 detail"
      by (auto simp: reraise_plain)
    with body' have "transcribe_body cfg env a
        (g\<lparr>current_requests := current_requests g + 1\<rparr>) fs =
       Some (g2, fs2, sch, Inl (HTTPException 413 detail))" by simp
    from body_413 [OF this] fs True show ?thesis by simp
  qed
  show ?thesis
  proof (intro conjI impI allI)
    assume "current_requests g < MAX_CONCURRENT_REQUESTS cfg \<and>
      (\<exists>n. upload_size audio = Some n \<and> n \<noteq> 0 \<and> MAX_AUDIO_SIZE cfg < n)"
    then show "transcribe_audio cfg env audio g fs =
        Some \<lparr>globals_after = g, fs_after = fs,
              counter_writes = [current_requests g + 1, current_requests g],
              cleanup_scheduled = False,
              outcome = Inl (HTTPException 413 (lit ''Audio file too medium''))\<rparr>"
      by (auto simp: transcribe_audio_def transcribe_body_def Let_def)
  next
    fix r detail
    assume "transcribe_audio cfg env audio g fs = Some r \<and>
        outcome r = Inl (HTTPException 413 detail)"
    then have *: "(\<exists>n. upload_size audio = Some n \<and> n \<noteq> 0 \<and> MAX_AUDIO_SIZE cfg < n) \<and>
      current_requests g < MAX_CONCURRENT_REQUESTS cfg \<and> fs_after r = fs"
      using only_if [of audio r detail] by blast
    from * show "\<exists>n. upload_size audio = Some n \<and> n \<noteq> 0 \<and> MAX_AUDIO_SIZE cfg < n" by blast
    from * show "current_requests g < MAX_CONCURRENT_REQUESTS cfg" by blast
    from * show "fs_after r = fs" by blast
  next
    fix bytes r detail
    assume small: "upload_size audio = None \<or> upload_size audio = Some 0"
      and ret: "transcribe_audio cfg env (audio\<lparr>payload := bytes\<rparr>) g fs = Some r"
    show "outcome r \<noteq> Inl (HTTPException 413 detail)"
    proof
      assume "outcome r = Inl (HTTPException 413 detail)"
      from only_if [OF ret this] small show False by auto
    qed
  next
    assume "MAX_CONCURRENT_REQUESTS cfg \<le> current_requests g"
    then show "transcribe_audio cfg env audio g fs =
        Some \<lparr>globals_after = g, fs_after = fs, counter_writes = [],
              cleanup_scheduled = False,
              outcome = Inl (HTTPException 429 (lit ''Too many concurrent requests''))\<rparr>"
      by (rule rejected_result)
  qed
qed

text \<open>
  With the default limit of 52428800 bytes: a reported size of 52428801 gives the 413 and
  an empty file system; a reported size of 0, or none, with a payload of five bytes is
  served; with the counter at 6 the reported size of 52428801 gives the 429 of the gate.
\<close>

theorem size_limit_witness:
  "transcribe_audio default_stt_config example_stt_env
     (example_upload\<lparr>upload_size := Some 52428801\<rparr>) (stt_globals_with None 0) Map.empty =
     Some \<lparr>globals_after = stt_globals_with None 0, fs_after = Map.empty,
           counter_writes = [1, 0], cleanup_scheduled = False,
           outcome = Inl (HTTPException 413 (lit ''Audio file too medium''))\<rparr> \<and>
   map_option outcome (transcribe_audio default_stt_config example_stt_env
     (example_upload\<lparr>upload_size := Some 0, payload := [1, 2, 3, 4, 5]\<rparr>)
     (stt_globals_with None 0) Map.empty) =
     Some (Inr \<lparr>transcription = lit ''hi'', language = lit ''en'', duration = 0,
                processing_time = 3 / 2\<rparr>) \<and>
   map_option outcome (transcribe_audio default_stt_config example_stt_env
     (example_upload\<lparr>upload_size := None, payload := [1, 2, 3, 4, 5]\<rparr>)
     (stt_globals_with None 0) Map.empty) =
     Some (Inr \<lparr>transcription = lit ''hi'', language = lit ''en'', duration = 0,
                processing_time = 3 / 2\<rparr>) \<and>
   map_option outcome (transcribe_audio default_stt_config example_stt_env
     (example_upload\<lparr>upload_size := Some 52428801\<rparr>) (stt_globals_with None 6) Map.empty) =
     Some (Inl (HTTPException 429 (lit ''Too many concurrent requests'')))"
  using size_limit [of "stt_globals_with None 0" default_stt_config
      "example_upload\<lparr>upload_size := Some 52428801\<rparr>" example_stt_env Map.empty]
    size_limit [of "stt_globals_with None 0" default_stt_config
      "example_upload\<lparr>upload_size := Some 0\<rparr>" example_stt_env Map.empty]
    size_limit [of "stt_globals_with None 6" default_stt_config
      "example_upload\<lparr>upload_size := Some 52428801\<rparr>" example_stt_env Map.empty]
  by (simp add: stt_handler_defs stt_example_defs)

text \<open>
  The claim as worded (the handler raises 413 iff the upload is oversize) fails when the
  gate is closed: with the counter at the threshold 5, an upload that reports 52428801
  bytes, one more than the limit, is answered with 429, not 413.
\<close>

theorem size_limit_behind_gate:
  "upload_size (example_upload\<lparr>upload_size := Some 52428801\<rparr>) = Some 52428801 \<and>
   (52428801 :: int) \<noteq> 0 \<and>
   MAX_AUDIO_SIZE default_stt_config < 52428801 \<and>
   map_option outcome (transcribe_audio default_stt_config example_stt_env
     (example_upload\<lparr>upload_size := Some 52428801\<rparr>) (stt_globals_with None 5) Map.empty) =
     Some (Inl (HTTPException 429 (lit ''Too many concurrent requests'')))"
  by (simp add: transcribe_audio_def default_stt_config_def stt_globals_with_def
      example_upload_def)

section \<open>C10: the preconditions of \<open>/generate-speech\<close>\<close>

text \<open>
  Claim C10. The two checks come first and in this order (lines 148-152). When the model
  is not loaded (\<open>model_loaded\<close> false or \<open>tts_model\<close> \<open>None\<close>) the handler raises HTTP 503;
  when the model is loaded and the text strips to the empty string it raises HTTP 400. In
  both cases the globals and the file system are what they were (no output file, no
  synthesis call) and no cleanup is scheduled. A request that passes both checks ends in a
  response or in a 500, never in a 503 or 400, and the globals are unchanged then too.
\<close>

theorem speech_preconditions:
  "(\<not> model_loaded g \<or> tts_model g = None \<longrightarrow>
      generate_speech cfg env request g fs =
        (g, fs, False, Inl (HTTPException 503 (lit ''TTS model not loaded'')))) \<and>
   (model_loaded g \<and> tts_model g \<noteq> None \<and> strip (req_text request) = [] \<longrightarrow>
      generate_speech cfg env request g fs =
        (g, fs, False, Inl (HTTPException 400 (lit ''Text cannot be empty'')))) \<and>
   (model_loaded g \<and> tts_model g \<noteq> None \<and> strip (req_text request) \<noteq> [] \<longrightarrow>
      (\<forall>g' fs' sch r. generate_speech cfg env request g fs = (g', fs', sch, r) \<longrightarrow>
         g' = g \<and> ((\<exists>resp. r = Inr resp) \<or> (\<exists>detail. r = Inl (HTTPException 500 detail)))))"
proof (intro conjI impI allI)
  show "generate_speech cfg env request g fs =
        (g, fs, False, Inl (HTTPException 503 (lit ''TTS model not loaded'')))"
    if "\<not> model_loaded g \<or> tts_model g = None"
    using that by (auto simp: generate_speech_def)
  show "generate_speech cfg env request g fs =
        (g, fs, False, Inl (HTTPException 400 (lit ''Text cannot be empty'')))"
    if "model_loaded g \<and> tts_model g \<noteq> None \<and> strip (req_text request) = []"
    using that by (auto simp: generate_speech_def)
next
  fix g' fs' sch r
  assume ok: "model_loaded g \<and> tts_model g \<noteq> None \<and> strip (req_text request) \<noteq> []"
    and ret: "generate_speech cfg env request g fs = (g', fs', sch, r)"
  from ok ret show "g' = g"
    by (auto simp: generate_speech_def Let_def split: prod.splits option.splits sum.splits)
  from ok ret show "(\<exists>resp. r = Inr resp) \<or> (\<exists>detail. r = Inl (HTTPException 500 detail))"
    by (auto simp: generate_speech_def generation_failed_def Let_def
        split: prod.splits option.splits sum.splits)
qed

text \<open>
  A service without a model answers 503 and a loaded one answers 400 to a text of four
  whitespace characters; in both cases the one file of the directory is all there is
  afterwards.
\<close>

theorem speech_preconditions_witness:
  "generate_speech default_tts_config example_tts_env example_request
     (tts_globals_with False None False) [lit ''./audio/kept.wav'' \<mapsto> [1]] =
   (tts_globals_with False None False, [lit ''./audio/kept.wav'' \<mapsto> [1]], False,
    Inl (HTTPException 503 (lit ''TTS model not loaded''))) \<and>
   generate_speech default_tts_config example_tts_env
     (example_request\<lparr>req_text := [32, 9, 10, 160]\<rparr>)
     (tts_globals_with False (Some 9) True) [lit ''./audio/kept.wav'' \<mapsto> [1]] =
   (tts_globals_with False (Some 9) True, [lit ''./audio/kept.wav'' \<mapsto> [1]], False,
    Inl (HTTPException 400 (lit ''Text cannot be empty''))) \<and>
   fst (generate_speech default_tts_config example_tts_env example_request
     (tts_globals_with False (Some 9) True) Map.empty) = tts_globals_with False (Some 9) True"
  using speech_preconditions [of "tts_globals_with False None False" default_tts_config
      example_tts_env example_request "[lit ''./audio/kept.wav'' \<mapsto> [1]]"]
    speech_preconditions [of "tts_globals_with False (Some 9) True" default_tts_config
      example_tts_env "example_request\<lparr>req_text := [32, 9, 10, 160]\<rparr>"
      "[lit ''./audio/kept.wav'' \<mapsto> [1]]"]
    speech_preconditions [of "tts_globals_with False (Some 9) True" default_tts_config
      example_tts_env example_request Map.empty]
  by (simp add: tts_handler_defs tts_example_defs strip_def isspace_def lit_def)

end
